theory Spec2Isabelle
  imports Complex_Main "HOL-Library.Word"
begin

section \<open>Python values and exceptions\<close>

text \<open>
  The sources are Python 2: on integers \<open>/\<close> is floor division and \<open>%\<close> takes the sign
  of the divisor, which is what \<open>div\<close> and \<open>mod\<close> on \<open>int\<close> do. Both raise
  ZeroDivisionError on a zero divisor. An exception is a value of type \<open>error\<close>; a call that
  may raise returns \<open>error + 'a\<close> with \<open>Inl\<close> for the exception.
\<close>

datatype error =
    ValueError
  | ZeroDivisionError
  | TypeError
  | AttributeError
  | FPSError "real option" "real option"

definition ebind :: "error + 'a \<Rightarrow> ('a \<Rightarrow> error + 'b) \<Rightarrow> error + 'b" where
  "ebind m f = (case m of Inl e \<Rightarrow> Inl e | Inr v \<Rightarrow> f v)"

definition floordiv :: "int \<Rightarrow> int \<Rightarrow> error + int" where
  "floordiv a b = (if b = 0 then Inl ZeroDivisionError else Inr (a div b))"

definition pymod :: "int \<Rightarrow> int \<Rightarrow> error + int" where
  "pymod a b = (if b = 0 then Inl ZeroDivisionError else Inr (a mod b))"

fun map_err :: "('a \<Rightarrow> error + 'b) \<Rightarrow> 'a list \<Rightarrow> error + 'b list" where
  "map_err f [] = Inr []"
| "map_err f (x # xs) = ebind (f x) (\<lambda>y. ebind (map_err f xs) (\<lambda>ys. Inr (y # ys)))"

text \<open>\<open>range(n)\<close> for an integer \<open>n\<close>: empty when \<open>n \<le> 0\<close>.\<close>

definition range_py :: "int \<Rightarrow> int list" where
  "range_py n = map int [0..<nat n]"

section \<open>NumPy arrays\<close>

text \<open>
  A two-dimensional array is its shape and its cells, addressed (row, column). Cells outside
  the shape are never read by the operations below. The element type is left abstract:
  conversions between dtypes are not part of the model.
\<close>

record 'a ndarray =
  nrows :: nat
  ncols :: nat
  item :: "nat \<Rightarrow> nat \<Rightarrow> 'a"

text \<open>
  \<open>np.empty((h, w))\<close>: negative dimensions raise ValueError; the contents are whatever the
  memory holds, given here as the parameter \<open>mem\<close>.
\<close>

definition np_empty :: "(nat \<Rightarrow> nat \<Rightarrow> 'a) \<Rightarrow> int \<times> int \<Rightarrow> error + 'a ndarray" where
  "np_empty mem shp =
     (if fst shp < 0 \<or> snd shp < 0 then Inl ValueError
      else Inr \<lparr>nrows = nat (fst shp), ncols = nat (snd shp), item = mem\<rparr>)"

text \<open>
  Python's \<open>slice(start, stop).indices(n)\<close> for step 1: a negative bound counts from the
  end, and both bounds are clipped to \<open>0..n\<close>. The result is the first index and the
  number of indices selected.
\<close>

definition clip_bound :: "int \<Rightarrow> nat \<Rightarrow> nat" where
  "clip_bound b n =
     (let b' = (if b < 0 then b + int n else b)
      in if b' < 0 then 0 else if b' > int n then n else nat b')"

definition slice_indices :: "int \<Rightarrow> int \<Rightarrow> nat \<Rightarrow> nat \<times> nat" where
  "slice_indices start stop n =
     (let lo = clip_bound start n; hi = clip_bound stop n
      in (lo, if lo < hi then hi - lo else 0))"

text \<open>
  Broadcasting a source axis of length \<open>src\<close> to a target axis of length \<open>dst\<close> is possible
  when they are equal or the source has length 1.
\<close>

definition broadcastable :: "nat \<Rightarrow> nat \<Rightarrow> bool" where
  "broadcastable src dst = (src = dst \<or> src = 1)"

text \<open>
  \<open>a[y0:y1, x0:x1] = v\<close> for two-dimensional \<open>a\<close> and \<open>v\<close>: the slices are clipped to
  the region they select, \<open>v\<close> is broadcast to that region (ValueError when it cannot be),
  and the region's cells are overwritten.
\<close>

definition region :: "'a ndarray \<Rightarrow> (int \<times> int) \<Rightarrow> (int \<times> int) \<Rightarrow> (nat \<times> nat) \<times> (nat \<times> nat)" where
  "region a ys xs =
     (slice_indices (fst ys) (snd ys) (nrows a), slice_indices (fst xs) (snd xs) (ncols a))"

definition in_region :: "(nat \<times> nat) \<times> (nat \<times> nat) \<Rightarrow> nat \<Rightarrow> nat \<Rightarrow> bool" where
  "in_region rg y x =
     (case rg of ((y0, h), (x0, w)) \<Rightarrow> y0 \<le> y \<and> y < y0 + h \<and> x0 \<le> x \<and> x < x0 + w)"

definition setitem_slices ::
  "'a ndarray \<Rightarrow> (int \<times> int) \<Rightarrow> (int \<times> int) \<Rightarrow> 'a ndarray \<Rightarrow> error + 'a ndarray" where
  "setitem_slices a ys xs v =
     (let rg = region a ys xs;
          y0 = fst (fst rg); h = snd (fst rg);
          x0 = fst (snd rg); w = snd (snd rg)
      in if broadcastable (nrows v) h \<and> broadcastable (ncols v) w
         then Inr (a\<lparr>item := (\<lambda>y x.
                if in_region rg y x
                then item v (if nrows v = 1 then 0 else y - y0)
                            (if ncols v = 1 then 0 else x - x0)
                else item a y x)\<rparr>)
         else Inl ValueError)"

text \<open>
  An integer array of rank three, as \<open>reshape\<close> produces it: the shape and the flat
  row-major buffer.
\<close>

record grid3 =
  gshape :: "nat \<times> nat \<times> nat"
  gdata :: "int list"

definition grid_at :: "grid3 \<Rightarrow> nat \<Rightarrow> nat \<Rightarrow> nat \<Rightarrow> int" where
  "grid_at g r c k =
     (case gshape g of (n0, n1, n2) \<Rightarrow> gdata g ! ((r * n1 + c) * n2 + k))"

text \<open>
  \<open>np.array(pairs).reshape((n0, n1, 2))\<close> for a list of pairs. The buffer is the pairs
  flattened. A dimension of \<open>-1\<close> is inferred from the size, any other negative dimension
  raises ValueError, and so does a size that does not fit.
\<close>

definition flatten_pairs :: "(int \<times> int) list \<Rightarrow> int list" where
  "flatten_pairs ps = concat (map (\<lambda>p. [fst p, snd p]) ps)"

definition reshape_pairs :: "(int \<times> int) list \<Rightarrow> int \<times> int \<Rightarrow> error + grid3" where
  "reshape_pairs ps tc =
     (let buf = flatten_pairs ps; n0 = fst tc; n1 = snd tc
      in if 0 \<le> n0 \<and> 0 \<le> n1 then
           (if int (length buf) = n0 * n1 * 2
            then Inr \<lparr>gshape = (nat n0, nat n1, 2), gdata = buf\<rparr>
            else Inl ValueError)
         else if n0 = -1 \<and> 0 < n1 then
           (if int (length buf) mod (n1 * 2) = 0
            then Inr \<lparr>gshape = (nat (int (length buf) div (n1 * 2)), nat n1, 2), gdata = buf\<rparr>
            else Inl ValueError)
         else if 0 < n0 \<and> n1 = -1 then
           (if int (length buf) mod (n0 * 2) = 0
            then Inr \<lparr>gshape = (nat n0, nat (int (length buf) div (n0 * 2)), 2), gdata = buf\<rparr>
            else Inl ValueError)
         else Inl ValueError)"

section \<open>Tiler (imageprocessing.py)\<close>

definition check_tiling :: "int \<times> int \<Rightarrow> int \<times> int \<Rightarrow> error + unit" where
  "check_tiling shp tc =
     ebind (pymod (fst shp) (fst tc)) (\<lambda>r0.
       if r0 \<noteq> 0 then Inl ValueError
       else ebind (pymod (snd shp) (snd tc)) (\<lambda>r1.
         if r1 \<noteq> 0 then Inl ValueError else Inr ()))"

record 'a Tiler =
  tiles_count :: "int \<times> int"
  outlier_coeff :: int
  supersampling :: int
  shape :: "int \<times> int"
  overall :: "'a ndarray"

text \<open>
  \<open>Tiler.__init__\<close>. The flag \<open>cplx\<close> only selects the dtype of the accumulator, which the
  abstract element type stands for; \<open>mem\<close> is the uninitialised content \<open>np.empty\<close> returns.
\<close>

definition Tiler_init ::
  "int \<times> int \<Rightarrow> int \<times> int \<Rightarrow> bool \<Rightarrow> int \<Rightarrow> bool \<Rightarrow> (nat \<Rightarrow> nat \<Rightarrow> 'a) \<Rightarrow> error + 'a Tiler" where
  "Tiler_init shp tc outlier ss cplx mem =
     ebind (check_tiling shp tc) (\<lambda>_.
       let s = (fst shp * ss, snd shp * ss)
       in ebind (floordiv (fst s) ss) (\<lambda>h.
          ebind (floordiv (snd s) ss) (\<lambda>w.
          ebind (np_empty mem (h, w)) (\<lambda>buf.
            Inr \<lparr>tiles_count = tc,
                 outlier_coeff = (if outlier then 2 else 1),
                 supersampling = ss,
                 shape = s,
                 overall = buf\<rparr>))))"

definition outlier :: "'a Tiler \<Rightarrow> bool" where
  "outlier t = (outlier_coeff t - 1 \<noteq> 0)"

definition overall_image :: "'a Tiler \<Rightarrow> 'a ndarray" where
  "overall_image t = overall t"

definition tile_shape :: "'a Tiler \<Rightarrow> error + int \<times> int" where
  "tile_shape t =
     ebind (floordiv (outlier_coeff t * fst (shape t)) (fst (tiles_count t))) (\<lambda>a.
     ebind (floordiv (outlier_coeff t * snd (shape t)) (snd (tiles_count t))) (\<lambda>b.
       Inr (a, b)))"

definition tile_indices :: "'a Tiler \<Rightarrow> error + grid3" where
  "tile_indices t =
     ebind (map_err (\<lambda>i. ebind (tile_shape t) (\<lambda>ts. floordiv (i * fst ts) (outlier_coeff t)))
              (range_py (fst (tiles_count t)))) (\<lambda>y_ind.
     ebind (map_err (\<lambda>i. ebind (tile_shape t) (\<lambda>ts. floordiv (i * snd ts) (outlier_coeff t)))
              (range_py (snd (tiles_count t)))) (\<lambda>x_ind.
     ebind (if outlier t
            then ebind (tile_shape t) (\<lambda>ts0.
                 ebind (tile_shape t) (\<lambda>ts1.
                   Inr (map (\<lambda>y. y - fst ts0 div 4) y_ind,
                        map (\<lambda>x. x - snd ts1 div 4) x_ind)))
            else Inr (y_ind, x_ind)) (\<lambda>(ys, xs).
       reshape_pairs (List.product ys xs) (tiles_count t))))"

text \<open>
  \<open>Tiler.insert\<close>: the shape of a tile without supersampling and outlier, then one slice
  assignment into the accumulator.
\<close>

definition interior_shape :: "'a Tiler \<Rightarrow> error + int \<times> int" where
  "interior_shape t =
     ebind (tile_shape t) (\<lambda>ts.
     ebind (floordiv (fst ts) (supersampling t)) (\<lambda>a.
     ebind (floordiv a (outlier_coeff t)) (\<lambda>a'.
     ebind (floordiv (snd ts) (supersampling t)) (\<lambda>b.
     ebind (floordiv b (outlier_coeff t)) (\<lambda>b'.
       Inr (a', b'))))))"

definition insert_slices :: "int \<times> int \<Rightarrow> int \<times> int \<Rightarrow> (int \<times> int) \<times> (int \<times> int)" where
  "insert_slices ish indices =
     ((fst indices * fst ish, fst ish * (fst indices + 1)),
      (snd indices * snd ish, snd ish * (snd indices + 1)))"

definition Tiler_insert :: "'a Tiler \<Rightarrow> 'a ndarray \<Rightarrow> int \<times> int \<Rightarrow> error + 'a Tiler" where
  "Tiler_insert t tile indices =
     ebind (interior_shape t) (\<lambda>ish.
       let (ys, xs) = insert_slices ish indices
       in ebind (setitem_slices (overall t) ys xs tile) (\<lambda>buf.
            Inr (t\<lparr>overall := buf\<rparr>)))"

text \<open>The region of the accumulator that \<open>insert\<close> assigns for given grid indices.\<close>

definition insert_region :: "'a Tiler \<Rightarrow> int \<times> int \<Rightarrow> error + (nat \<times> nat) \<times> (nat \<times> nat)" where
  "insert_region t indices =
     ebind (interior_shape t) (\<lambda>ish.
       let (ys, xs) = insert_slices ish indices
       in Inr (region (overall t) ys xs))"

definition in_grid :: "int \<times> int \<Rightarrow> int \<times> int \<Rightarrow> bool" where
  "in_grid tc indices =
     (0 \<le> fst indices \<and> fst indices < fst tc \<and> 0 \<le> snd indices \<and> snd indices < snd tc)"

text \<open>
  The central region in the words of the specification: a tile of size \<open>2n\<close> that covers an
  interior of width \<open>n\<close> starts \<open>n / 2\<close> before the interior. So the region that starts
  at \<open>start\<close> with \<open>width\<close> cells is the central region of the tile that starts at
  \<open>origin\<close> with \<open>extent\<close> cells when it lies inside the tile and the margin before it
  equals the margin after it.
\<close>

definition spec_central_region :: "int \<Rightarrow> int \<Rightarrow> int \<Rightarrow> int \<Rightarrow> bool" where
  "spec_central_region origin extent start width =
     (origin \<le> start \<and> start + width \<le> origin + extent
      \<and> start - origin = (origin + extent) - (start + width))"

section \<open>Camera (devices/cameras.py)\<close>

text \<open>
  Exposure times and frame rates are numbers in base units, taken as reals; \<open>simplified\<close>,
  which rescales a quantity to base units, is then the identity. \<open>1.0 / x\<close> raises
  TypeError for \<open>None\<close> and, as for Python floats, ZeroDivisionError for zero. A Python
  value that may be \<open>None\<close> is an \<open>option\<close>; Python 2 orders \<open>None\<close> below every number.
\<close>

definition simplified :: "real \<Rightarrow> real" where
  "simplified q = q"

definition truediv_one :: "real option \<Rightarrow> error + real" where
  "truediv_one x =
     (case x of None \<Rightarrow> Inl TypeError
      | Some v \<Rightarrow> if v = 0 then Inl ZeroDivisionError else Inr (1 / v))"

definition le_py :: "real option \<Rightarrow> real \<Rightarrow> bool" where
  "le_py a b = (case a of None \<Rightarrow> True | Some v \<Rightarrow> v \<le> b)"

definition is_fps_feasible :: "real option \<Rightarrow> real option \<Rightarrow> error + bool" where
  "is_fps_feasible fps exp_time = ebind (truediv_one fps) (\<lambda>q. Inr (le_py exp_time q))"

definition fps_check_raise :: "real option \<Rightarrow> real option \<Rightarrow> error + unit" where
  "fps_check_raise fps exp_time =
     ebind (is_fps_feasible fps exp_time) (\<lambda>ok.
       if \<not> ok then Inl (FPSError fps exp_time) else Inr ())"

text \<open>
  An attribute of an object either does not exist yet or is bound to a value. The camera
  has the attribute \<open>_dark_image\<close>, which \<open>get_image\<close> reads, and the attribute
  \<open>dark_image\<close>, which only the shape setter assigns.
\<close>

datatype 'a attribute = Missing | Bound 'a

record Camera =
  pixel_size :: real
  gain :: real
  dark_current :: real
  amplifier_sigma :: real
  bpp :: nat
  quantum_effs :: "real \<rightharpoonup> real"
  priv_shape :: "(nat \<times> nat) option"
  priv_dark_image :: "real ndarray attribute"
  dark_image :: "real ndarray option attribute"
  priv_exp_time :: "real option"
  priv_fps :: "real option"

text \<open>\<open>np.ones(shape, dtype) * value\<close>.\<close>

definition np_ones_times :: "nat \<times> nat \<Rightarrow> real \<Rightarrow> real ndarray" where
  "np_ones_times shp v = \<lparr>nrows = fst shp, ncols = snd shp, item = (\<lambda>_ _. 1 * v)\<rparr>"

text \<open>
  The property setters. A setter that raises leaves the object as it was at the raise, so
  each returns the exception, if any, and the camera afterwards.
\<close>

definition Camera_shape :: "Camera \<Rightarrow> (nat \<times> nat) option" where
  "Camera_shape c = priv_shape c"

definition Camera_shape_set :: "Camera \<Rightarrow> (nat \<times> nat) option \<Rightarrow> Camera" where
  "Camera_shape_set c shp =
     (let c1 = c\<lparr>priv_shape := shp\<rparr>
      in case priv_shape c1 of
           Some s \<Rightarrow> c1\<lparr>priv_dark_image := Bound (np_ones_times s (dark_current c1))\<rparr>
         | None \<Rightarrow> c1\<lparr>dark_image := Bound None\<rparr>)"

definition Camera_exp_time :: "Camera \<Rightarrow> real option" where
  "Camera_exp_time c = priv_exp_time c"

definition Camera_fps :: "Camera \<Rightarrow> real option" where
  "Camera_fps c = priv_fps c"

definition Camera_exp_time_set :: "Camera \<Rightarrow> real \<Rightarrow> error option \<times> Camera" where
  "Camera_exp_time_set c exp_time =
     (case fps_check_raise (Camera_fps c) (Some exp_time) of
        Inl e \<Rightarrow> (Some e, c)
      | Inr _ \<Rightarrow> (None, c\<lparr>priv_exp_time := Some (simplified exp_time)\<rparr>))"

definition Camera_fps_set :: "Camera \<Rightarrow> real \<Rightarrow> error option \<times> Camera" where
  "Camera_fps_set c fps =
     (case fps_check_raise (Some fps) (Camera_exp_time c) of
        Inl e \<Rightarrow> (Some e, c)
      | Inr _ \<Rightarrow> (None, c\<lparr>priv_fps := Some (simplified fps)\<rparr>))"

text \<open>\<open>Camera.__init__\<close>: the shape goes through its setter, then the pair is completed and checked.\<close>

definition Camera_init ::
  "real \<Rightarrow> real \<Rightarrow> real \<Rightarrow> real \<Rightarrow> nat \<Rightarrow> (real \<rightharpoonup> real) \<Rightarrow> (nat \<times> nat) option
     \<Rightarrow> real option \<Rightarrow> real option \<Rightarrow> error + Camera" where
  "Camera_init ps g dc sigma bits qe shp exp_time fps =
     (let c0 = \<lparr>pixel_size = ps, gain = g, dark_current = dc, amplifier_sigma = sigma,
                bpp = bits, quantum_effs = qe, priv_shape = None,
                priv_dark_image = Missing, dark_image = Missing,
                priv_exp_time = None, priv_fps = None\<rparr>;
          c1 = Camera_shape_set c0 shp
      in ebind (if fps = None \<and> exp_time = None then Inr (fps, exp_time)
                else if fps \<noteq> None then
                  (if exp_time = None
                   then ebind (truediv_one fps) (\<lambda>q. Inr (fps, Some q))
                   else Inr (fps, exp_time))
                else ebind (truediv_one exp_time) (\<lambda>q. Inr (Some q, exp_time)))
           (\<lambda>(fps', exp_time').
              ebind (if fps' \<noteq> None then fps_check_raise fps' exp_time' else Inr ()) (\<lambda>_.
                Inr (c1\<lparr>priv_exp_time := exp_time', priv_fps := fps'\<rparr>))))"

definition max_grey_value :: "Camera \<Rightarrow> int" where
  "max_grey_value c = 2 ^ bpp c - 1"

text \<open>
  Elementwise addition with broadcasting: two axes fit when they are equal or one of them
  has length 1.
\<close>

definition broadcast_dim :: "nat \<Rightarrow> nat \<Rightarrow> error + nat" where
  "broadcast_dim m n =
     (if m = n then Inr m else if m = 1 then Inr n else if n = 1 then Inr m else Inl ValueError)"

definition np_add :: "real ndarray \<Rightarrow> real ndarray \<Rightarrow> error + real ndarray" where
  "np_add u v =
     ebind (broadcast_dim (nrows u) (nrows v)) (\<lambda>h.
     ebind (broadcast_dim (ncols u) (ncols v)) (\<lambda>w.
       Inr \<lparr>nrows = h, ncols = w,
            item = (\<lambda>i j. item u (if nrows u = 1 then 0 else i) (if ncols u = 1 then 0 else j)
                        + item v (if nrows v = 1 then 0 else i) (if ncols v = 1 then 0 else j))\<rparr>))"

text \<open>
  The random draws are inputs. \<open>np.random.poisson(lam)\<close> raises ValueError for a negative
  mean and for a mean above \<open>poisson_lam_max\<close>, which is the largest 64-bit integer less
  ten times its square root, in double precision. The sample of a cell is a natural
  number, \<open>draw i j\<close>, and 0 when the mean is 0.
  \<open>np.random.normal(loc, scale)\<close> raises ValueError for a negative scale; the sample of
  a cell is \<open>loc + scale * z i j\<close> for a standard normal draw \<open>z i j\<close>.
\<close>

definition all_cells :: "(real \<Rightarrow> bool) \<Rightarrow> real ndarray \<Rightarrow> bool" where
  "all_cells P a = list_all (\<lambda>i. list_all (\<lambda>j. P (item a i j)) [0..<ncols a]) [0..<nrows a]"

definition poisson_lam_max :: real where
  "poisson_lam_max = 9223372006484770816"

definition np_random_poisson :: "(nat \<Rightarrow> nat \<Rightarrow> nat) \<Rightarrow> real ndarray \<Rightarrow> error + real ndarray" where
  "np_random_poisson draw lam =
     (if \<not> all_cells (\<lambda>v. \<not> v < 0) lam then Inl ValueError
      else if \<not> all_cells (\<lambda>v. \<not> v > poisson_lam_max) lam then Inl ValueError
      else Inr (lam\<lparr>item := (\<lambda>i j. if item lam i j = 0 then 0 else real (draw i j))\<rparr>))"

definition np_random_normal ::
  "(nat \<Rightarrow> nat \<Rightarrow> real) \<Rightarrow> real ndarray \<Rightarrow> real \<Rightarrow> error + real ndarray" where
  "np_random_normal z loc scale =
     (if scale < 0 then Inl ValueError
      else Inr (loc\<lparr>item := (\<lambda>i j. item loc i j + scale * z i j)\<rparr>))"

text \<open>
  \<open>astype(np.ushort)\<close> on a float: the value is truncated towards zero. When the result
  does not fit 16 bits the conversion is the platform's; it is the parameter \<open>oob\<close>.
  On x86-64 builds of NumPy it wraps modulo \<open>2 ^ 16\<close>, which is \<open>wrap_ushort\<close>.
\<close>

definition trunc :: "real \<Rightarrow> int" where
  "trunc x = (if 0 \<le> x then \<lfloor>x\<rfloor> else \<lceil>x\<rceil>)"

definition astype_ushort :: "(real \<Rightarrow> 16 word) \<Rightarrow> real \<Rightarrow> 16 word" where
  "astype_ushort oob x =
     (if 0 \<le> trunc x \<and> trunc x < 65536 then word_of_int (trunc x) else oob x)"

definition wrap_ushort :: "real \<Rightarrow> 16 word" where
  "wrap_ushort x = word_of_int (trunc x)"

text \<open>
  \<open>Camera.get_image\<close> in its three steps: shot and electronics noise times the gain, the
  cut at the maximum grey value, and the cast.
\<close>

definition noisy_counts ::
  "Camera \<Rightarrow> real ndarray \<Rightarrow> (nat \<Rightarrow> nat \<Rightarrow> nat) \<Rightarrow> (nat \<Rightarrow> nat \<Rightarrow> real) \<Rightarrow> error + real ndarray" where
  "noisy_counts c photons draw z =
     (case priv_dark_image c of
        Missing \<Rightarrow> Inl AttributeError
      | Bound dark \<Rightarrow>
          ebind (np_add photons dark) (\<lambda>lam.
          ebind (np_random_poisson draw lam) (\<lambda>shot.
          ebind (np_random_normal z shot (amplifier_sigma c)) (\<lambda>el.
            Inr (el\<lparr>item := (\<lambda>i j. gain c * item el i j)\<rparr>)))))"

definition cut_values :: "Camera \<Rightarrow> real ndarray \<Rightarrow> real ndarray" where
  "cut_values c res =
     res\<lparr>item := (\<lambda>i j. if item res i j > real_of_int (max_grey_value c)
                        then real_of_int (max_grey_value c) else item res i j)\<rparr>"

definition get_image ::
  "Camera \<Rightarrow> real ndarray \<Rightarrow> (nat \<Rightarrow> nat \<Rightarrow> nat) \<Rightarrow> (nat \<Rightarrow> nat \<Rightarrow> real) \<Rightarrow> (real \<Rightarrow> 16 word)
     \<Rightarrow> error + (16 word) ndarray" where
  "get_image c photons draw z oob =
     ebind (noisy_counts c photons draw z) (\<lambda>res.
       let res' = cut_values c res
       in Inr \<lparr>nrows = nrows res', ncols = ncols res',
               item = (\<lambda>i j. astype_ushort oob (item res' i j))\<rparr>)"

section \<open>Properties of the tiler\<close>

subsection \<open>Construction and the shapes derived from it\<close>

lemma Tiler_init_Inr:
  assumes "Tiler_init shp tc outl ss cplx mem = Inr t"
  shows "fst tc \<noteq> 0 \<and> snd tc \<noteq> 0 \<and> ss \<noteq> 0 \<and> fst shp mod fst tc = 0 \<and> snd shp mod snd tc = 0
     \<and> 0 \<le> fst shp \<and> 0 \<le> snd shp
     \<and> t = \<lparr>tiles_count = tc, outlier_coeff = (if outl then 2 else 1), supersampling = ss,
            shape = (fst shp * ss, snd shp * ss),
            overall = \<lparr>nrows = nat (fst shp), ncols = nat (snd shp), item = mem\<rparr>\<rparr>"
  using assms
  by (auto simp: Tiler_init_def check_tiling_def ebind_def pymod_def floordiv_def np_empty_def Let_def
      split: if_splits sum.splits)

lemma Tiler_init_ok:
  assumes "fst tc \<noteq> 0" "snd tc \<noteq> 0" "ss \<noteq> 0" "fst shp mod fst tc = 0" "snd shp mod snd tc = 0"
     "0 \<le> fst shp" "0 \<le> snd shp"
  shows "Tiler_init shp tc outl ss cplx mem = Inr \<lparr>tiles_count = tc, outlier_coeff = (if outl then 2 else 1), supersampling = ss,
            shape = (fst shp * ss, snd shp * ss),
            overall = \<lparr>nrows = nat (fst shp), ncols = nat (snd shp), item = mem\<rparr>\<rparr>"
  using assms
  by (auto simp: Tiler_init_def check_tiling_def ebind_def pymod_def floordiv_def np_empty_def Let_def
      split: if_splits sum.splits)

lemma exact_div_mult:
  fixes b n :: int
  assumes "b mod n = 0"
  shows "(c * (b * s)) div n * n = c * b * s"
proof -
  from assms have "n dvd b" by (simp add: mod_eq_0_iff_dvd)
  then have "n dvd c * (b * s)" by simp
  then show ?thesis by (simp add: mult.assoc)
qed

lemma interior_shape_init:
  assumes "Tiler_init shp tc outl ss cplx mem = Inr t0"
  shows "interior_shape (t0\<lparr>overall := a\<rparr>) = Inr (fst shp div fst tc, snd shp div snd tc)"
proof -
  note I = Tiler_init_Inr [OF assms]
  define c :: int where "c = (if outl then 2 else 1)"
  have c: "c \<noteq> 0" by (simp add: c_def)
  from I have nz: "fst tc \<noteq> 0" "snd tc \<noteq> 0" "ss \<noteq> 0" by simp_all
  from I have d: "fst tc dvd fst shp" "snd tc dvd snd shp" by (simp_all add: mod_eq_0_iff_dvd)
  have e: "(c * (b * ss)) div n div ss div c = b div n" if "n dvd b" "n \<noteq> 0" for b n :: int
  proof -
    from that obtain k where k: "b = n * k" by (auto simp: dvd_def)
    have "c * (b * ss) = n * (c * ss * k)" by (simp add: k mult_ac)
    have "(c * (b * ss)) div n = c * ss * k" unfolding \<open>c * (b * ss) = n * (c * ss * k)\<close>
      using that(2) by (rule nonzero_mult_div_cancel_left)
    moreover have "c * ss * k div ss = c * k" using nz(3) by simp
    moreover have "c * k div c = k" using c by simp
    moreover have "b div n = k" using k that(2) by simp
    ultimately show ?thesis by simp
  qed
  from I have t: "tiles_count t0 = tc" "supersampling t0 = ss" "outlier_coeff t0 = c"
     "shape t0 = (fst shp * ss, snd shp * ss)" by (simp_all add: c_def)
  show ?thesis
    using nz c e [OF d(1) nz(1)] e [OF d(2) nz(2)]
    by (simp add: interior_shape_def tile_shape_def ebind_def floordiv_def t)
qed

lemma clip_bound_in: "0 \<le> b \<Longrightarrow> b \<le> int n \<Longrightarrow> clip_bound b n = nat b"
  by (simp add: clip_bound_def Let_def)

lemma slice_indices_block:
  fixes r ih :: int
  assumes "0 \<le> r" "0 \<le> ih" "ih * (r + 1) \<le> int n"
  shows "slice_indices (r * ih) (ih * (r + 1)) n = (nat (r * ih), nat ih)"
proof -
  have a: "0 \<le> r * ih" using assms by simp
  have b: "r * ih \<le> ih * (r + 1)" using assms by (simp add: algebra_simps)
  have c: "0 \<le> ih * (r + 1)" using assms by simp
  have lo: "clip_bound (r * ih) n = nat (r * ih)" using a b assms(3) by (intro clip_bound_in) auto
  have hi: "clip_bound (ih * (r + 1)) n = nat (ih * (r + 1))" using c assms(3) by (intro clip_bound_in) auto
  have d: "ih * (r + 1) - r * ih = ih" by (simp add: algebra_simps)
  have "nat (ih * (r + 1)) - nat (r * ih) = nat ih"
    using a c d by (metis nat_diff_distrib')
  moreover have "nat (r * ih) < nat (ih * (r + 1)) \<longleftrightarrow> 0 < ih" using a c d by linarith
  ultimately show ?thesis by (auto simp: slice_indices_def lo hi Let_def)
qed

lemma block_le:
  fixes r n b :: int
  assumes "0 \<le> r" "r < n" "n dvd b" "0 \<le> b"
  shows "(b div n) * (r + 1) \<le> b" "0 \<le> b div n"
proof -
  have n: "0 < n" using assms by simp
  show p: "0 \<le> b div n" using assms n by (simp add: pos_imp_zdiv_nonneg_iff)
  have "(b div n) * (r + 1) \<le> (b div n) * n" using p assms by (intro mult_left_mono) auto
  also have "\<dots> = b" using assms(3) by simp
  finally show "(b div n) * (r + 1) \<le> b" .
qed

lemma insert_region_init:
  assumes init: "Tiler_init shp tc outl ss cplx mem = Inr t0"
    and dims: "nrows a = nrows (overall t0)" "ncols a = ncols (overall t0)"
    and grid: "in_grid tc (r, c)"
  shows "insert_region (t0\<lparr>overall := a\<rparr>) (r, c) =
           Inr ((nat (r * (fst shp div fst tc)), nat (fst shp div fst tc)),
                (nat (c * (snd shp div snd tc)), nat (snd shp div snd tc)))"
proof -
  note I = Tiler_init_Inr [OF init]
  from I dims have n: "nrows a = nat (fst shp)" "ncols a = nat (snd shp)" by simp_all
  from I have d: "fst tc dvd fst shp" "snd tc dvd snd shp" by (simp_all add: mod_eq_0_iff_dvd)
  from I have nn: "0 \<le> fst shp" "0 \<le> snd shp" by simp_all
  from grid have g: "0 \<le> r" "r < fst tc" "0 \<le> c" "c < snd tc" by (simp_all add: in_grid_def)
  have y: "slice_indices (r * (fst shp div fst tc)) ((fst shp div fst tc) * (r + 1)) (nat (fst shp))
            = (nat (r * (fst shp div fst tc)), nat (fst shp div fst tc))"
    using block_le [OF g(1,2) d(1) nn(1)] nn g by (intro slice_indices_block) auto
  have x: "slice_indices (c * (snd shp div snd tc)) ((snd shp div snd tc) * (c + 1)) (nat (snd shp))
            = (nat (c * (snd shp div snd tc)), nat (snd shp div snd tc))"
    using block_le [OF g(3,4) d(2) nn(2)] nn g by (intro slice_indices_block) auto
  show ?thesis
    by (simp add: insert_region_def interior_shape_init [OF init] ebind_def insert_slices_def
        region_def n x y)
qed

lemma Tiler_insert_eq:
  "Tiler_insert t tile idx =
     ebind (insert_region t idx) (\<lambda>rg.
       if broadcastable (nrows tile) (snd (fst rg)) \<and> broadcastable (ncols tile) (snd (snd rg))
       then Inr (t\<lparr>overall := (overall t)\<lparr>item := (\<lambda>y x.
                if in_region rg y x
                then item tile (if nrows tile = 1 then 0 else y - fst (fst rg))
                               (if ncols tile = 1 then 0 else x - fst (snd rg))
                else item (overall t) y x)\<rparr>\<rparr>)
       else Inl ValueError)"
  by (cases "interior_shape t")
     (simp_all add: Tiler_insert_def insert_region_def ebind_def setitem_slices_def Let_def
        case_prod_beta)

lemma block_unique:
  fixes r ih :: int
  assumes "0 < ih" "0 \<le> r"
  shows "(nat (r * ih) \<le> y \<and> y < nat (r * ih) + nat ih) \<longleftrightarrow> r = int y div ih"
proof -
  have nn: "0 \<le> r * ih" using assms by simp
  have "(nat (r * ih) \<le> y \<and> y < nat (r * ih) + nat ih) \<longleftrightarrow> (r * ih \<le> int y \<and> int y < r * ih + ih)"
    using nn assms(1) by linarith
  also have "\<dots> \<longleftrightarrow> r = int y div ih"
  proof
    assume a: "r * ih \<le> int y \<and> int y < r * ih + ih"
    have "int y = ih * r + (int y - r * ih)" by (simp add: mult.commute)
    then have "int y div ih = r"
      using a by (intro int_div_pos_eq [where r = "int y - r * ih"]) auto
    then show "r = int y div ih" by simp
  next
    assume r: "r = int y div ih"
    have m: "0 \<le> int y mod ih" "int y mod ih < ih" using assms(1) by simp_all
    have "int y = ih * r + int y mod ih" unfolding r by simp
    then show "r * ih \<le> int y \<and> int y < r * ih + ih" using m by (simp add: mult.commute)
  qed
  finally show ?thesis .
qed

lemma block_index_in_grid:
  fixes n b :: int
  assumes "0 < n" "n dvd b" "int y < b"
  shows "0 \<le> int y div (b div n)" "int y div (b div n) < n" "0 < b div n"
proof -
  from assms(2) obtain k where k: "b = n * k" by (auto simp: dvd_def)
  have kd: "b div n = k" using k assms(1) by simp
  have bp: "0 < b" using assms(3) by linarith
  have kp: "0 < k" using bp k assms(1) by (simp add: zero_less_mult_iff)
  show "0 < b div n" using kp kd by simp
  show "0 \<le> int y div (b div n)" using kp kd by (simp add: pos_imp_zdiv_nonneg_iff)
  have "int y < n * k" using assms(3) k by simp
  have "int y div k < n"
  proof (rule ccontr)
    assume "\<not> int y div k < n"
    then have "n \<le> int y div k" by simp
    then have "k * n \<le> k * (int y div k)" using kp by (intro mult_left_mono) auto
    also have "\<dots> = int y - int y mod k" by (simp add: minus_mod_eq_mult_div)
    also have "\<dots> \<le> int y" using kp by simp
    finally show False using \<open>int y < n * k\<close> by (simp add: mult.commute)
  qed
  then show "int y div (b div n) < n" unfolding kd .
qed

lemma insert_regions_tile:
  assumes init: "Tiler_init shp tc outl ss cplx mem = Inr t0"
    and dims: "nrows a = nrows (overall t0)" "ncols a = ncols (overall t0)"
    and pos: "0 < fst tc" "0 < snd tc"
    and cell: "y < nrows a" "x < ncols a"
  shows "\<exists>!idx. in_grid tc idx \<and> (\<exists>rg. insert_region (t0\<lparr>overall := a\<rparr>) idx = Inr rg \<and> in_region rg y x)"
proof -
  note I = Tiler_init_Inr [OF init]
  from I dims have n: "nrows a = nat (fst shp)" "ncols a = nat (snd shp)" by simp_all
  from I have d: "fst tc dvd fst shp" "snd tc dvd snd shp" by (simp_all add: mod_eq_0_iff_dvd)
  define ih iw where "ih = fst shp div fst tc" and "iw = snd shp div snd tc"
  have yb: "int y < fst shp" and xb: "int x < snd shp" using cell n by linarith+
  note gy = block_index_in_grid [OF pos(1) d(1) yb, folded ih_def]
  note gx = block_index_in_grid [OF pos(2) d(2) xb, folded iw_def]
  have key: "(\<exists>rg. insert_region (t0\<lparr>overall := a\<rparr>) idx = Inr rg \<and> in_region rg y x)
               \<longleftrightarrow> idx = (int y div ih, int x div iw)" if g: "in_grid tc idx" for idx
  proof -
    obtain r c where idx: "idx = (r, c)" by (cases idx)
    from g idx have rc: "0 \<le> r" "0 \<le> c" by (simp_all add: in_grid_def)
    show ?thesis
      using block_unique [OF gy(3) rc(1), of y] block_unique [OF gx(3) rc(2), of x]
      by (auto simp: idx insert_region_init [OF init dims g [unfolded idx]] in_region_def
          ih_def [symmetric] iw_def [symmetric])
  qed
  have g0: "in_grid tc (int y div ih, int x div iw)"
    using gy gx by (simp add: in_grid_def)
  show ?thesis
  proof (rule ex1I [where a = "(int y div ih, int x div iw)"])
    show "in_grid tc (int y div ih, int x div iw) \<and>
      (\<exists>rg. insert_region (t0\<lparr>overall := a\<rparr>) (int y div ih, int x div iw) = Inr rg \<and> in_region rg y x)"
      using g0 key [OF g0] by simp
  next
    fix idx
    assume "in_grid tc idx \<and> (\<exists>rg. insert_region (t0\<lparr>overall := a\<rparr>) idx = Inr rg \<and> in_region rg y x)"
    then show "idx = (int y div ih, int x div iw)" using key by blast
  qed
qed

lemma insert_region_within:
  assumes init: "Tiler_init shp tc outl ss cplx mem = Inr t0"
    and dims: "nrows a = nrows (overall t0)" "ncols a = ncols (overall t0)"
    and grid: "in_grid tc idx"
    and "insert_region (t0\<lparr>overall := a\<rparr>) idx = Inr rg" "in_region rg y x"
  shows "y < nrows a \<and> x < ncols a"
proof -
  obtain r c where idx: "idx = (r, c)" by (cases idx)
  note I = Tiler_init_Inr [OF init]
  from I dims have n: "nrows a = nat (fst shp)" "ncols a = nat (snd shp)" by simp_all
  from I have d: "fst tc dvd fst shp" "snd tc dvd snd shp" by (simp_all add: mod_eq_0_iff_dvd)
  from I have nn: "0 \<le> fst shp" "0 \<le> snd shp" by simp_all
  from grid idx have g: "0 \<le> r" "r < fst tc" "0 \<le> c" "c < snd tc" by (simp_all add: in_grid_def)
  note gy = block_le [OF g(1,2) d(1) nn(1)]
  note gx = block_le [OF g(3,4) d(2) nn(2)]
  have rg: "rg = ((nat (r * (fst shp div fst tc)), nat (fst shp div fst tc)),
                (nat (c * (snd shp div snd tc)), nat (snd shp div snd tc)))"
    using assms(5) insert_region_init [OF init dims grid [unfolded idx]] idx by simp
  have ey: "r * (fst shp div fst tc) + fst shp div fst tc \<le> fst shp" using gy(1) by (simp add: algebra_simps)
  have ex: "c * (snd shp div snd tc) + snd shp div snd tc \<le> snd shp" using gx(1) by (simp add: algebra_simps)
  have py: "0 \<le> r * (fst shp div fst tc)" using g gy by simp
  have px: "0 \<le> c * (snd shp div snd tc)" using g gx by simp
  from assms(6) have "int y < r * (fst shp div fst tc) + fst shp div fst tc"
     "int x < c * (snd shp div snd tc) + snd shp div snd tc"
    using py px gy gx unfolding rg in_region_def by (simp_all, linarith+)
  then show ?thesis using ey ex n by linarith
qed

subsection \<open>Tile origins and unchecked insertion\<close>

lemma map_err_Inr:
  assumes "\<And>x. x \<in> set xs \<Longrightarrow> f x = Inr (g x)"
  shows "map_err f xs = Inr (map g xs)"
  using assms by (induction xs) (simp_all add: ebind_def)

lemma tile_shape_init:
  assumes "Tiler_init shp tc outl ss cplx mem = Inr t"
  shows "tile_shape t = Inr ((outlier_coeff t * (fst shp * ss)) div fst tc,
                             (outlier_coeff t * (snd shp * ss)) div snd tc)"
  using Tiler_init_Inr [OF assms]
  by (simp add: tile_shape_def ebind_def floordiv_def)

lemma length_flatten_pairs: "length (flatten_pairs ps) = 2 * length ps"
  by (induction ps) (simp_all add: flatten_pairs_def)

lemma flatten_pairs_nth:
  assumes "j < length ps"
  shows "flatten_pairs ps ! (j * 2) = fst (ps ! j)" "flatten_pairs ps ! (j * 2 + 1) = snd (ps ! j)"
  using assms
proof (induction ps arbitrary: j)
  case Nil
  { case 1 then show ?case by simp }
  { case 2 then show ?case by simp }
next
  case (Cons p ps)
  { case 1 then show ?case using Cons.IH(1) [of "j - 1"]
      by (cases j) (simp_all add: flatten_pairs_def) }
  { case 2 then show ?case using Cons.IH(2) [of "j - 1"]
      by (cases j) (simp_all add: flatten_pairs_def) }
qed

lemma product_nth_rc:
  assumes "r < length ys" "c < length xs"
  shows "r * length xs + c < length ys * length xs"
    and "List.product ys xs ! (r * length xs + c) = (ys ! r, xs ! c)"
proof -
  have "r * length xs + c < r * length xs + length xs" using assms(2) by simp
  also have "\<dots> = (Suc r) * length xs" by simp
  also have "\<dots> \<le> length ys * length xs" using assms(1) by (intro mult_le_mono1) simp
  finally show b: "r * length xs + c < length ys * length xs" .
  have n0: "length xs \<noteq> 0" using assms(2) by auto
  have d: "(r * length xs + c) div length xs = r"
    using div_mult_self3 [where b = "length xs" and c = r and a = c, OF n0] assms(2) by simp
  have m: "(r * length xs + c) mod length xs = c"
    using mod_mult_self3 [where b = "length xs" and c = r and a = c] assms(2) by simp
  show "List.product ys xs ! (r * length xs + c) = (ys ! r, xs ! c)"
    using b by (simp only: product_nth d m)
qed

lemma range_py_nth: "i < nat n \<Longrightarrow> range_py n ! i = int i" "length (range_py n) = nat n"
  by (simp_all add: range_py_def)

lemma tile_indices_init:
  assumes init: "Tiler_init shp tc outl ss cplx mem = Inr t"
    and pos: "0 < fst tc" "0 < snd tc"
    and ts: "tile_shape t = Inr ts"
  shows "tile_indices t = Inr \<lparr>gshape = (nat (fst tc), nat (snd tc), 2),
           gdata = flatten_pairs (List.product
             (map (\<lambda>i. i * fst ts div outlier_coeff t - (if outl then fst ts div 4 else 0))
                  (range_py (fst tc)))
             (map (\<lambda>i. i * snd ts div outlier_coeff t - (if outl then snd ts div 4 else 0))
                  (range_py (snd tc))))\<rparr>"
proof -
  note I = Tiler_init_Inr [OF init]
  from I have t: "tiles_count t = tc" "outlier_coeff t = (if outl then 2 else 1)" by simp_all
  have c: "outlier_coeff t \<noteq> 0" by (simp add: t)
  have o: "outlier t = outl" by (simp add: outlier_def t)
  have y: "map_err (\<lambda>i. ebind (tile_shape t) (\<lambda>ts. floordiv (i * fst ts) (outlier_coeff t))) xs
             = Inr (map (\<lambda>i. i * fst ts div outlier_coeff t) xs)" for xs
    using c by (intro map_err_Inr) (simp add: ts ebind_def floordiv_def)
  have x: "map_err (\<lambda>i. ebind (tile_shape t) (\<lambda>ts. floordiv (i * snd ts) (outlier_coeff t))) xs
             = Inr (map (\<lambda>i. i * snd ts div outlier_coeff t) xs)" for xs
    using c by (intro map_err_Inr) (simp add: ts ebind_def floordiv_def)
  have len: "int (length (flatten_pairs (List.product (map f (range_py (fst tc))) (map g (range_py (snd tc))))))
               = fst tc * snd tc * 2" for f g :: "int \<Rightarrow> int"
    using pos by (simp add: length_flatten_pairs range_py_nth(2))
  show ?thesis
    unfolding tile_indices_def y x
    using pos len
    by (cases outl)
       (simp_all add: o ts ebind_def reshape_pairs_def Let_def t(1) comp_def)
qed

lemma grid_at_product:
  assumes "r < length ys" "c < length xs"
  shows "grid_at \<lparr>gshape = (length ys, length xs, 2), gdata = flatten_pairs (List.product ys xs)\<rparr> r c 0 = ys ! r"
    and "grid_at \<lparr>gshape = (length ys, length xs, 2), gdata = flatten_pairs (List.product ys xs)\<rparr> r c 1 = xs ! c"
proof -
  note p = product_nth_rc [OF assms]
  have l: "r * length xs + c < length (List.product ys xs)" using p(1) by simp
  show "grid_at \<lparr>gshape = (length ys, length xs, 2), gdata = flatten_pairs (List.product ys xs)\<rparr> r c 0 = ys ! r"
    using flatten_pairs_nth(1) [OF l] p(2) by (simp add: grid_at_def)
  show "grid_at \<lparr>gshape = (length ys, length xs, 2), gdata = flatten_pairs (List.product ys xs)\<rparr> r c 1 = xs ! c"
    using flatten_pairs_nth(2) [OF l] p(2) by (simp add: grid_at_def)
qed

lemma tile_indices_entries:
  assumes init: "Tiler_init shp tc outl ss cplx mem = Inr t"
    and pos: "0 < fst tc" "0 < snd tc"
    and ts: "tile_shape t = Inr ts"
  shows "\<exists>g. tile_indices t = Inr g
     \<and> gshape g = (nat (fst tc), nat (snd tc), 2)
     \<and> length (gdata g) = nat (fst tc) * nat (snd tc) * 2
     \<and> (\<forall>r c. r < nat (fst tc) \<and> c < nat (snd tc) \<longrightarrow>
          grid_at g r c 0 = int r * fst ts div outlier_coeff t - (if outl then fst ts div 4 else 0)
        \<and> grid_at g r c 1 = int c * snd ts div outlier_coeff t - (if outl then snd ts div 4 else 0))"
proof -
  let ?ys = "map (\<lambda>i. i * fst ts div outlier_coeff t - (if outl then fst ts div 4 else 0)) (range_py (fst tc))"
  let ?xs = "map (\<lambda>i. i * snd ts div outlier_coeff t - (if outl then snd ts div 4 else 0)) (range_py (snd tc))"
  let ?g = "\<lparr>gshape = (nat (fst tc), nat (snd tc), 2), gdata = flatten_pairs (List.product ?ys ?xs)\<rparr>"
  have ly: "length ?ys = nat (fst tc)" and lx: "length ?xs = nat (snd tc)"
    by (simp_all add: range_py_nth(2))
  have g: "tile_indices t = Inr ?g" by (rule tile_indices_init [OF init pos ts])
  have len: "length (gdata ?g) = nat (fst tc) * nat (snd tc) * 2"
    using ly lx by (simp add: length_flatten_pairs range_py_nth(2))
  have e: "grid_at ?g r c 0 = int r * fst ts div outlier_coeff t - (if outl then fst ts div 4 else 0)
         \<and> grid_at ?g r c 1 = int c * snd ts div outlier_coeff t - (if outl then snd ts div 4 else 0)"
    if rc: "r < nat (fst tc)" "c < nat (snd tc)" for r c
  proof -
    have r': "r < length ?ys" and c': "c < length ?xs" using rc ly lx by simp_all
    have "grid_at ?g r c 0 = ?ys ! r" "grid_at ?g r c 1 = ?xs ! c"
      using grid_at_product [OF r' c'] unfolding ly lx by simp_all
    moreover have "?ys ! r = int r * fst ts div outlier_coeff t - (if outl then fst ts div 4 else 0)"
      using rc(1) by (simp add: range_py_nth)
    moreover have "?xs ! c = int c * snd ts div outlier_coeff t - (if outl then snd ts div 4 else 0)"
      using rc(2) by (simp add: range_py_nth)
    ultimately show ?thesis by simp
  qed
  show ?thesis
    apply (rule exI [where x = ?g])
    using g len e by simp
qed

lemma outlier_init: "Tiler_init shp tc outl ss cplx mem = Inr t \<Longrightarrow> outlier t = outl"
  using Tiler_init_Inr [of shp tc outl ss cplx mem t] by (simp add: outlier_def)

lemma clip_bound_beyond: "int n \<le> b \<Longrightarrow> clip_bound b n = n"
  by (auto simp: clip_bound_def Let_def)

lemma slice_indices_beyond:
  fixes i ih :: int
  assumes "0 \<le> ih" "int n \<le> i * ih"
  shows "snd (slice_indices (i * ih) (ih * (i + 1)) n) = 0"
proof -
  have "int n \<le> ih * (i + 1)" using assms by (simp add: algebra_simps)
  then show ?thesis using assms(2) by (simp add: slice_indices_def clip_bound_beyond Let_def)
qed

lemma insert_region_eq:
  assumes init: "Tiler_init shp tc outl ss cplx mem = Inr t0"
  shows "insert_region (t0\<lparr>overall := a\<rparr>) idx =
           Inr (region a (fst idx * (fst shp div fst tc), (fst shp div fst tc) * (fst idx + 1))
                         (snd idx * (snd shp div snd tc), (snd shp div snd tc) * (snd idx + 1)))"
  by (simp add: insert_region_def interior_shape_init [OF init] ebind_def insert_slices_def)

lemma insert_beyond_rows:
  assumes init: "Tiler_init shp tc outl ss cplx mem = Inr t0"
    and dims: "nrows a = nrows (overall t0)"
    and pos: "0 < fst tc" and far: "fst tc \<le> fst idx" and big: "2 \<le> nrows tile"
  shows "Tiler_insert (t0\<lparr>overall := a\<rparr>) tile idx = Inl ValueError"
proof -
  note I = Tiler_init_Inr [OF init]
  from I dims have n: "nrows a = nat (fst shp)" by simp
  from I have d: "fst tc dvd fst shp" and nn: "0 \<le> fst shp" by (simp_all add: mod_eq_0_iff_dvd)
  define ih where "ih = fst shp div fst tc"
  have ih: "0 \<le> ih" using nn pos by (simp add: ih_def pos_imp_zdiv_nonneg_iff)
  have "fst shp = ih * fst tc" using d by (simp add: ih_def)
  also have "\<dots> \<le> ih * fst idx" using ih far by (intro mult_left_mono)
  finally have "int (nrows a) \<le> fst idx * ih" using nn n by (simp add: mult.commute)
  from slice_indices_beyond [OF ih this]
  have "snd (fst (region a (fst idx * ih, ih * (fst idx + 1)) xs)) = 0" for xs
    by (simp add: region_def)
  then show ?thesis
    using big by (simp add: Tiler_insert_eq insert_region_eq [OF init] ebind_def broadcastable_def
        ih_def [symmetric])
qed

lemma insert_beyond_cols:
  assumes init: "Tiler_init shp tc outl ss cplx mem = Inr t0"
    and dims: "ncols a = ncols (overall t0)"
    and pos: "0 < snd tc" and far: "snd tc \<le> snd idx" and big: "2 \<le> ncols tile"
  shows "Tiler_insert (t0\<lparr>overall := a\<rparr>) tile idx = Inl ValueError"
proof -
  note I = Tiler_init_Inr [OF init]
  from I dims have n: "ncols a = nat (snd shp)" by simp
  from I have d: "snd tc dvd snd shp" and nn: "0 \<le> snd shp" by (simp_all add: mod_eq_0_iff_dvd)
  define iw where "iw = snd shp div snd tc"
  have iw: "0 \<le> iw" using nn pos by (simp add: iw_def pos_imp_zdiv_nonneg_iff)
  have "snd shp = iw * snd tc" using d by (simp add: iw_def)
  also have "\<dots> \<le> iw * snd idx" using iw far by (intro mult_left_mono)
  finally have "int (ncols a) \<le> snd idx * iw" using nn n by (simp add: mult.commute)
  from slice_indices_beyond [OF iw this]
  have "snd (snd (region a ys (snd idx * iw, iw * (snd idx + 1)))) = 0" for ys
    by (simp add: region_def)
  then show ?thesis
    using big by (simp add: Tiler_insert_eq insert_region_eq [OF init] ebind_def broadcastable_def
        iw_def [symmetric])
qed

lemma insert_in_grid_cases:
  assumes init: "Tiler_init shp tc outl ss cplx mem = Inr t0"
    and dims: "nrows a = nrows (overall t0)" "ncols a = ncols (overall t0)"
    and grid: "in_grid tc idx"
  shows "Tiler_insert (t0\<lparr>overall := a\<rparr>) tile idx =
           (if broadcastable (nrows tile) (nat (fst shp div fst tc))
             \<and> broadcastable (ncols tile) (nat (snd shp div snd tc))
            then Inr (t0\<lparr>overall := a\<lparr>item := (\<lambda>y x.
                if in_region ((nat (fst idx * (fst shp div fst tc)), nat (fst shp div fst tc)),
                              (nat (snd idx * (snd shp div snd tc)), nat (snd shp div snd tc))) y x
                then item tile (if nrows tile = 1 then 0 else y - nat (fst idx * (fst shp div fst tc)))
                               (if ncols tile = 1 then 0 else x - nat (snd idx * (snd shp div snd tc)))
                else item a y x)\<rparr>\<rparr>)
            else Inl ValueError)"
proof -
  obtain r c where idx: "idx = (r, c)" by (cases idx)
  show ?thesis
    by (simp add: Tiler_insert_eq insert_region_init [OF init dims grid [unfolded idx]] idx ebind_def
        del: One_nat_def cong: if_cong)
qed

lemmas insert_eval = Tiler_insert_def interior_shape_def tile_shape_def ebind_def floordiv_def
  insert_slices_def setitem_slices_def region_def slice_indices_def clip_bound_def
  broadcastable_def in_region_def Let_def

section \<open>Properties of the camera\<close>

lemma fps_check_raise_Some:
  assumes "f \<noteq> 0"
  shows "fps_check_raise (Some f) (Some e) =
           (if e \<le> 1 / f then Inr () else Inl (FPSError (Some f) (Some e)))"
  using assms by (simp add: fps_check_raise_def is_fps_feasible_def truediv_one_def le_py_def ebind_def)

lemma uint_ushort_fit:
  assumes "0 \<le> n" "n < 65536"
  shows "uint (word_of_int n :: 16 word) = n"
  using assms by (simp add: uint_word_of_int take_bit_int_eq_self)

lemma uint_ushort_bound: "uint (w :: 16 word) \<le> 65535"
  using uint_bounded [of w] by simp

lemma trunc_nonneg: "- 1 < x \<Longrightarrow> 0 \<le> trunc x"
  by (auto simp: trunc_def)

lemma trunc_le: "0 \<le> x \<Longrightarrow> x \<le> real_of_int m \<Longrightarrow> trunc x \<le> m"
  by (simp add: trunc_def floor_le_iff)

lemma max_grey_value_nonneg: "0 \<le> max_grey_value c"
  by (simp add: max_grey_value_def)

lemma cut_values_item:
  "item (cut_values c res) i j = min (item res i j) (real_of_int (max_grey_value c))"
  "nrows (cut_values c res) = nrows res" "ncols (cut_values c res) = ncols res"
  by (auto simp: cut_values_def min_def)

lemma astype_cut_in_range:
  fixes v :: real
  assumes "- 1 < v" "v \<le> real_of_int m" "0 \<le> m"
  shows "uint (astype_ushort oob v) \<le> m"
proof (cases "trunc v < 65536")
  case True
  have t0: "0 \<le> trunc v" using assms(1) by (rule trunc_nonneg)
  have "trunc v \<le> m"
  proof (cases "0 \<le> v")
    case True
    then show ?thesis using assms(2) by (rule trunc_le)
  next
    case False
    then have "trunc v = 0" using assms(1) by (simp add: trunc_def) linarith
    then show ?thesis using assms(3) by simp
  qed
  then show ?thesis using True t0 by (simp add: astype_ushort_def uint_ushort_fit)
next
  case False
  then have "65536 \<le> trunc v" by simp
  moreover have "0 \<le> v"
  proof (rule ccontr)
    assume n: "\<not> 0 \<le> v"
    then have "trunc v \<le> 0" by (simp add: trunc_def ceiling_le_iff)
    then show False using False by simp
  qed
  ultimately have "65536 \<le> m" using trunc_le [OF _ assms(2)] by linarith
  then show ?thesis using uint_ushort_bound [of "astype_ushort oob v"] by linarith
qed

lemma get_image_eq:
  assumes "noisy_counts c photons draw z = Inr res"
  shows "get_image c photons draw z oob =
           Inr \<lparr>nrows = nrows res, ncols = ncols res,
                item = (\<lambda>i j. astype_ushort oob (min (item res i j) (real_of_int (max_grey_value c))))\<rparr>"
  by (simp add: get_image_def assms ebind_def Let_def cut_values_item)

lemma astype_fit:
  fixes v :: real
  assumes "0 \<le> v" "v \<le> real_of_int m" "m < 65536"
  shows "uint (astype_ushort oob v) = trunc v"
proof -
  have "0 \<le> trunc v" using assms(1) by (intro trunc_nonneg) simp
  moreover have "trunc v \<le> m" using assms(1,2) by (rule trunc_le)
  ultimately show ?thesis using assms(3) by (simp add: astype_ushort_def uint_ushort_fit)
qed

lemma max_grey_value_fit: "bpp c \<le> 16 \<Longrightarrow> max_grey_value c < 65536"
proof -
  assume "bpp c \<le> 16"
  then have "(2::int) ^ bpp c \<le> 2 ^ 16" by (intro power_increasing) simp_all
  then show ?thesis by (simp add: max_grey_value_def)
qed

lemma ceiling_minus_one_real: "\<lceil>- 1 :: real\<rceil> = - 1"
  using ceiling_of_int [of "- 1", where ?'a = real] by simp

lemma uint_minus_one_ushort: "uint (- 1 :: 16 word) = 65535"
  by (simp add: unsigned_minus_1_eq_mask mask_eq_exp_minus_1)

text \<open>
  What the cut and the cast do give: the image has the shape of the noisy counts, every
  pixel is an unsigned 16-bit value, a count above the maximum grey value comes out as
  the maximum grey value, and a count above -1 comes out within
  [0, 2 ^ bits_per_pixel - 1]. A sensor of 8 bits with 300 photons per pixel and no noise
  saturates at 255.
\<close>

lemma get_image_range:
  assumes "noisy_counts c photons draw z = Inr res"
  shows "\<exists>img. get_image c photons draw z oob = Inr img
     \<and> nrows img = nrows res \<and> ncols img = ncols res
     \<and> (\<forall>i j. item img i j
                 = astype_ushort oob (min (item res i j) (real_of_int (max_grey_value c)))
            \<and> 0 \<le> uint (item img i j) \<and> uint (item img i j) \<le> 65535
            \<and> (- 1 < item res i j \<longrightarrow> uint (item img i j) \<le> max_grey_value c)
            \<and> (0 \<le> item res i j \<and> bpp c \<le> 16 \<longrightarrow>
                 uint (item img i j)
                   = trunc (min (item res i j) (real_of_int (max_grey_value c)))))"
proof -
  let ?m = "real_of_int (max_grey_value c)"
  let ?img = "\<lparr>nrows = nrows res, ncols = ncols res,
                item = (\<lambda>i j. astype_ushort oob (min (item res i j) ?m))\<rparr>"
  have m0: "0 \<le> max_grey_value c" by (rule max_grey_value_nonneg)
  have a: "uint (astype_ushort oob (min r ?m)) \<le> max_grey_value c" if "- 1 < r" for r
    using that m0 by (intro astype_cut_in_range) auto
  have b: "uint (astype_ushort oob (min r ?m)) = trunc (min r ?m)" if "0 \<le> r" "bpp c \<le> 16" for r
    using that m0 max_grey_value_fit [OF that(2)] by (intro astype_fit [where m = "max_grey_value c"]) auto
  show ?thesis
    apply (rule exI [where x = ?img])
    using get_image_eq [OF assms, of oob] a b uint_ushort_bound by simp
qed

lemma get_image_saturates:
  "\<exists>c img. Camera_init 1 1 0 0 8 Map.empty (Some (1, 1)) None None = Inr c
     \<and> get_image c \<lparr>nrows = 1, ncols = 1, item = (\<lambda>_ _. 300)\<rparr> (\<lambda>_ _. 300) (\<lambda>_ _. 0) wrap_ushort
         = Inr img
     \<and> max_grey_value c = 255 \<and> item img 0 0 = 255"
proof -
  let ?c = "\<lparr>pixel_size = 1, gain = 1, dark_current = 0, amplifier_sigma = 0,
            bpp = 8, quantum_effs = Map.empty, priv_shape = Some (1, 1),
            priv_dark_image = Bound \<lparr>nrows = 1, ncols = 1, item = (\<lambda>_ _. 0)\<rparr>,
            dark_image = Missing, priv_exp_time = None, priv_fps = None\<rparr>"
  let ?ph = "\<lparr>nrows = 1, ncols = 1, item = (\<lambda>_ _. 300::real)\<rparr>"
  have h: "Camera_init 1 1 0 0 8 Map.empty (Some (1, 1)) None None = Inr ?c"
    by (simp add: Camera_init_def Camera_shape_set_def np_ones_times_def ebind_def Let_def)
  have m: "max_grey_value ?c = 255" by (simp add: max_grey_value_def)
  have "\<exists>res. noisy_counts ?c ?ph (\<lambda>_ _. 300) (\<lambda>_ _. 0) = Inr res \<and> item res 0 0 = 300"
    by (simp add: noisy_counts_def np_add_def broadcast_dim_def np_random_poisson_def poisson_lam_max_def all_cells_def
        np_random_normal_def ebind_def)
  then obtain res where r: "noisy_counts ?c ?ph (\<lambda>_ _. 300) (\<lambda>_ _. 0) = Inr res"
    and v: "item res 0 0 = 300" by blast
  from get_image_range [OF r, of wrap_ushort] obtain img where
    g: "get_image ?c ?ph (\<lambda>_ _. 300) (\<lambda>_ _. 0) wrap_ushort = Inr img"
    and e: "0 \<le> item res 0 0 \<and> bpp ?c \<le> 16 \<longrightarrow>
              uint (item img 0 0) = trunc (min (item res 0 0) (real_of_int (max_grey_value ?c)))"
    by blast
  from e have "uint (item img 0 0) = 255" unfolding v m by (simp add: trunc_def)
  then have "item img 0 0 = 255" by (metis uint_numeral word_uint_eq_iff uint_bintrunc word_of_int_uint word_of_int_numeral)
  with h g m show ?thesis by blast
qed

text \<open>
  Claim C2. For every tiler that \<open>__init__\<close> builds (so each axis of the base shape is
  a multiple of the tile count on that axis), the tile shape times the tile count equals
  the outlier coefficient times the base shape times the supersampling, on both axes and
  as exact integer equality; the outlier coefficient is 2 with outlier and 1 without.
\<close>

theorem tile_shape_times_count:
  assumes "Tiler_init shp tc outl ss cplx mem = Inr t"
  shows "\<exists>a b. tile_shape t = Inr (a, b)
           \<and> a * fst (tiles_count t) = outlier_coeff t * fst shp * supersampling t
           \<and> b * snd (tiles_count t) = outlier_coeff t * snd shp * supersampling t
           \<and> outlier_coeff t = (if outl then 2 else 1)
           \<and> tiles_count t = tc \<and> supersampling t = ss"
proof -
  note I = Tiler_init_Inr [OF assms]
  from I have t: "tiles_count t = tc" "supersampling t = ss" "outlier_coeff t = (if outl then 2 else 1)"
     "shape t = (fst shp * ss, snd shp * ss)" by simp_all
  from I have nz: "fst tc \<noteq> 0" "snd tc \<noteq> 0" by simp_all
  from I have d: "fst shp mod fst tc = 0" "snd shp mod snd tc = 0" by simp_all
  have ts: "tile_shape t = Inr ((outlier_coeff t * (fst shp * ss)) div fst tc, (outlier_coeff t * (snd shp * ss)) div snd tc)"
    using nz by (simp add: tile_shape_def t ebind_def floordiv_def)
  show ?thesis
    unfolding ts using exact_div_mult [OF d(1)] exact_div_mult [OF d(2)] t by simp
qed

theorem tile_shape_times_count_witness:
  "\<exists>t. Tiler_init (64, 64) (2, 2) True 3 False (\<lambda>_ _. 0::int) = Inr t
       \<and> tile_shape t = Inr (192, 192)"
proof -
  let ?t = "\<lparr>tiles_count = (2, 2), outlier_coeff = 2, supersampling = 3, shape = (192, 192),
             overall = \<lparr>nrows = 64, ncols = 64, item = (\<lambda>_ _. 0::int)\<rparr>\<rparr>"
  have h: "Tiler_init (64, 64) (2, 2) True 3 False (\<lambda>_ _. 0::int) = Inr ?t"
    by (simp add: Tiler_init_def check_tiling_def ebind_def pymod_def floordiv_def np_empty_def Let_def)
  from tile_shape_times_count [OF h] obtain a b where
    "tile_shape ?t = Inr (a, b)" "a * 2 = 2 * 64 * 3" "b * 2 = 2 * 64 * 3" by auto
  then have "tile_shape ?t = Inr (192, 192)" by simp
  with h show ?thesis by blast
qed

text \<open>
  Claim C8. For non-zero tile counts, non-zero supersampling and a non-negative base shape,
  constructing a tiler raises exactly when some axis of the base shape is not a multiple of
  the tile count on that axis, the exception then is ValueError (the configuration error
  of \<open>_check_tiling\<close>), and construction succeeds on every divisible configuration.
\<close>

theorem Tiler_init_fails_iff_not_divisible:
  assumes "fst tc \<noteq> 0" "snd tc \<noteq> 0" "ss \<noteq> 0" "0 \<le> fst shp" "0 \<le> snd shp"
  shows "(Tiler_init shp tc outl ss cplx mem = Inl ValueError
            \<longleftrightarrow> \<not> (fst shp mod fst tc = 0 \<and> snd shp mod snd tc = 0))
       \<and> ((\<exists>e. Tiler_init shp tc outl ss cplx mem = Inl e)
            \<longleftrightarrow> \<not> (fst shp mod fst tc = 0 \<and> snd shp mod snd tc = 0))
       \<and> ((\<exists>t. Tiler_init shp tc outl ss cplx mem = Inr t)
            \<longleftrightarrow> fst shp mod fst tc = 0 \<and> snd shp mod snd tc = 0)"
proof (cases "fst shp mod fst tc = 0 \<and> snd shp mod snd tc = 0")
  case True
  then show ?thesis using Tiler_init_ok [of tc ss shp outl cplx mem] assms by simp
next
  case False
  then have "Tiler_init shp tc outl ss cplx mem = Inl ValueError"
    using assms by (auto simp: Tiler_init_def check_tiling_def ebind_def pymod_def)
  then show ?thesis using False by simp
qed

theorem Tiler_init_fails_iff_not_divisible_witness:
  "Tiler_init (3, 4) (2, 2) True 1 False (\<lambda>_ _. 0::int) = Inl ValueError
   \<and> (\<exists>t. Tiler_init (64, 64) (2, 2) True 1 False (\<lambda>_ _. 0::int) = Inr t)"
  using Tiler_init_fails_iff_not_divisible [of "(2, 2)" 1 "(3, 4)" True False "\<lambda>_ _. 0::int"]
        Tiler_init_fails_iff_not_divisible [of "(2, 2)" 1 "(64, 64)" True False "\<lambda>_ _. 0::int"]
  by simp

text \<open>
  Claim C1. Take a tiler built by \<open>__init__\<close>, with any contents in its accumulator,
  grid indices (row, col) inside the tile counts, and a tile of the interior shape
  (tile shape / supersampling / outlier coefficient). Then \<open>insert\<close> succeeds and changes
  only the accumulator: the cells of the rectangle starting at
  (row * interior height, col * interior width) with the extent of the interior shape
  hold the tile's cells afterwards, whatever they held before, and every other cell is
  unchanged. The rectangles of all in-grid indices lie inside the accumulator and every
  accumulator cell lies in the rectangle of exactly one in-grid index pair: no gaps and no
  overlaps, with or without outlier.
\<close>

theorem insert_writes_region:
  assumes init: "Tiler_init shp tc outl ss cplx mem = Inr t0"
    and dims: "nrows a = nrows (overall t0)" "ncols a = ncols (overall t0)"
    and grid: "in_grid tc (row, col)"
    and tile: "interior_shape (t0\<lparr>overall := a\<rparr>) = Inr (int (nrows tile), int (ncols tile))"
  shows "\<exists>rg a'.
           insert_region (t0\<lparr>overall := a\<rparr>) (row, col) = Inr rg
         \<and> rg = ((nat row * nrows tile, nrows tile), (nat col * ncols tile, ncols tile))
         \<and> Tiler_insert (t0\<lparr>overall := a\<rparr>) tile (row, col) = Inr (t0\<lparr>overall := a'\<rparr>)
         \<and> nrows a' = nrows a \<and> ncols a' = ncols a
         \<and> (\<forall>y x. item a' y x =
               (if in_region rg y x
                then item tile (y - nat row * nrows tile) (x - nat col * ncols tile)
                else item a y x))
         \<and> (\<forall>y x. y < nrows a \<and> x < ncols a \<longrightarrow>
               (\<exists>!idx. in_grid tc idx \<and>
                  (\<exists>rg'. insert_region (t0\<lparr>overall := a\<rparr>) idx = Inr rg' \<and> in_region rg' y x)))
         \<and> (\<forall>idx rg' y x. in_grid tc idx \<and> insert_region (t0\<lparr>overall := a\<rparr>) idx = Inr rg'
               \<and> in_region rg' y x \<longrightarrow> y < nrows a \<and> x < ncols a)"
proof -
  let ?t = "t0\<lparr>overall := a\<rparr>"
  let ?rg = "((nat row * nrows tile, nrows tile), (nat col * ncols tile, ncols tile))"
  let ?a' = "a\<lparr>item := (\<lambda>y x. if in_region ?rg y x
                then item tile (y - nat row * nrows tile) (x - nat col * ncols tile)
                else item a y x)\<rparr>"
  from grid have g: "0 \<le> row" "0 \<le> col" "0 < fst tc" "0 < snd tc" by (simp_all add: in_grid_def)
  from tile interior_shape_init [OF init, of a]
  have ish: "fst shp div fst tc = int (nrows tile)" "snd shp div snd tc = int (ncols tile)" by simp_all
  have rg: "insert_region ?t (row, col) = Inr ?rg"
    using g by (simp add: insert_region_init [OF init dims grid] ish nat_mult_distrib)
  have sub: "(if nrows tile = 1 then 0 else y - nat row * nrows tile) = y - nat row * nrows tile"
            "(if ncols tile = 1 then 0 else x - nat col * ncols tile) = x - nat col * ncols tile"
    if "in_region ?rg y x" for y x
    using that by (auto simp: in_region_def)
  have upd: "(\<lambda>y x. if in_region ?rg y x
                then item tile (if nrows tile = 1 then 0 else y - nat row * nrows tile)
                               (if ncols tile = 1 then 0 else x - nat col * ncols tile)
                else item a y x)
           = (\<lambda>y x. if in_region ?rg y x
                then item tile (y - nat row * nrows tile) (x - nat col * ncols tile)
                else item a y x)"
  proof (intro ext)
    fix y x
    show "(if in_region ?rg y x
                then item tile (if nrows tile = 1 then 0 else y - nat row * nrows tile)
                               (if ncols tile = 1 then 0 else x - nat col * ncols tile)
                else item a y x)
           = (if in_region ?rg y x
                then item tile (y - nat row * nrows tile) (x - nat col * ncols tile)
                else item a y x)"
    proof (cases "in_region ?rg y x")
      case True
      show ?thesis using True sub [OF True] by (simp only: if_True)
    next
      case False
      then show ?thesis by (simp only: if_False)
    qed
  qed
  have ins: "Tiler_insert ?t tile (row, col) = Inr (t0\<lparr>overall := ?a'\<rparr>)"
    by (simp add: Tiler_insert_eq rg ebind_def broadcastable_def upd del: One_nat_def cong: if_cong)
  have tiling: "\<forall>y x. y < nrows a \<and> x < ncols a \<longrightarrow>
               (\<exists>!idx. in_grid tc idx \<and>
                  (\<exists>rg'. insert_region ?t idx = Inr rg' \<and> in_region rg' y x))"
    using insert_regions_tile [OF init dims g(3,4)] by blast
  have within: "\<forall>idx rg' y x. in_grid tc idx \<and> insert_region ?t idx = Inr rg'
               \<and> in_region rg' y x \<longrightarrow> y < nrows a \<and> x < ncols a"
    using insert_region_within [OF init dims] by blast
  show ?thesis
    apply (rule exI [where x = ?rg])
    apply (rule exI [where x = ?a'])
    using rg ins tiling within by simp
qed

theorem insert_writes_region_witness:
  "\<exists>t a'. Tiler_init (2, 2) (2, 2) False 1 False (\<lambda>_ _. 0::int) = Inr t
      \<and> Tiler_insert t \<lparr>nrows = 1, ncols = 1, item = (\<lambda>_ _. 7)\<rparr> (1, 0) = Inr (t\<lparr>overall := a'\<rparr>)
      \<and> item a' 1 0 = 7 \<and> item a' 0 0 = 0 \<and> item a' 1 1 = 0"
proof -
  let ?a = "\<lparr>nrows = 2, ncols = 2, item = (\<lambda>_ _. 0::int)\<rparr>"
  let ?t = "\<lparr>tiles_count = (2, 2), outlier_coeff = 1, supersampling = 1, shape = (2, 2),
             overall = ?a\<rparr>"
  let ?tile = "\<lparr>nrows = 1, ncols = 1, item = (\<lambda>_ _. 7::int)\<rparr>"
  have h: "Tiler_init (2, 2) (2, 2) False 1 False (\<lambda>_ _. 0::int) = Inr ?t"
    by (simp add: Tiler_init_def check_tiling_def ebind_def pymod_def floordiv_def np_empty_def Let_def)
  have u: "?t\<lparr>overall := ?a\<rparr> = ?t" by simp
  have d1: "nrows ?a = nrows (overall ?t)" and d2: "ncols ?a = ncols (overall ?t)" by simp_all
  have g: "in_grid (2, 2) (1, 0)" by (simp add: in_grid_def)
  have i: "interior_shape (?t\<lparr>overall := ?a\<rparr>) = Inr (int (nrows ?tile), int (ncols ?tile))"
    by (simp add: interior_shape_def tile_shape_def ebind_def floordiv_def)
  from insert_writes_region [OF h d1 d2 g i] obtain a' where
    ins: "Tiler_insert (?t\<lparr>overall := ?a\<rparr>) ?tile (1, 0) = Inr (?t\<lparr>overall := a'\<rparr>)"
    and cells: "\<forall>y x. item a' y x =
               (if in_region ((nat 1 * nrows ?tile, nrows ?tile), (nat 0 * ncols ?tile, ncols ?tile)) y x
                then item ?tile (y - nat 1 * nrows ?tile) (x - nat 0 * ncols ?tile)
                else item ?a y x)"
    by blast
  from cells have "item a' 1 0 = 7" "item a' 0 0 = 0" "item a' 1 1 = 0"
    by (simp_all add: in_region_def)
  with h ins [unfolded u] show ?thesis by blast
qed


text \<open>
  Claim C4. For a tiler built by \<open>__init__\<close> with positive tile counts, \<open>tile_indices\<close>
  returns an array of shape tiles_count + (2,): entry (r, c) is the origin (y, x) of tile
  (r, c), where y is r * tile_shape[0] / outlier_coeff and x is c * tile_shape[1] /
  outlier_coeff for r and c from 0 to the tile count minus one, each less tile_shape / 4
  when the tiler has outliers. The buffer is row-major, so the y index varies slower.
\<close>

theorem tile_indices_grid:
  assumes init: "Tiler_init shp tc outl ss cplx mem = Inr t"
    and pos: "0 < fst tc" "0 < snd tc"
  shows "\<exists>g ts. tile_shape t = Inr ts \<and> tile_indices t = Inr g
     \<and> gshape g = (nat (fst tc), nat (snd tc), 2)
     \<and> length (gdata g) = nat (fst tc) * nat (snd tc) * 2
     \<and> (\<forall>r c. r < nat (fst tc) \<and> c < nat (snd tc) \<longrightarrow>
          grid_at g r c 0 = int r * fst ts div outlier_coeff t - (if outlier t then fst ts div 4 else 0)
        \<and> grid_at g r c 1 = int c * snd ts div outlier_coeff t - (if outlier t then snd ts div 4 else 0))"
  using tile_indices_entries [OF init pos tile_shape_init [OF init]] tile_shape_init [OF init]
    outlier_init [OF init]
  by auto

theorem tile_indices_grid_witness:
  "\<exists>t g. Tiler_init (64, 64) (2, 2) False 1 False (\<lambda>_ _. 0::int) = Inr t
      \<and> tile_indices t = Inr g \<and> gshape g = (2, 2, 2)
      \<and> (grid_at g 0 0 0, grid_at g 0 0 1) = (0, 0)
      \<and> (grid_at g 0 1 0, grid_at g 0 1 1) = (0, 32)
      \<and> (grid_at g 1 0 0, grid_at g 1 0 1) = (32, 0)
      \<and> (grid_at g 1 1 0, grid_at g 1 1 1) = (32, 32)"
proof -
  let ?t = "\<lparr>tiles_count = (2, 2), outlier_coeff = 1, supersampling = 1, shape = (64, 64),
             overall = \<lparr>nrows = 64, ncols = 64, item = (\<lambda>_ _. 0::int)\<rparr>\<rparr>"
  have h: "Tiler_init (64, 64) (2, 2) False 1 False (\<lambda>_ _. 0::int) = Inr ?t"
    by (simp add: Tiler_init_def check_tiling_def ebind_def pymod_def floordiv_def np_empty_def Let_def)
  have p: "0 < fst (2::int, 2::int)" "0 < snd (2::int, 2::int)" by simp_all
  have s: "tile_shape ?t = Inr (32, 32)" by (simp add: tile_shape_def ebind_def floordiv_def)
  have o: "\<not> outlier ?t" by (simp add: outlier_def)
  from tile_indices_grid [OF h p] obtain g where
    g: "tile_indices ?t = Inr g" "gshape g = (nat 2, nat 2, 2)"
    and e: "\<And>r c. r < nat 2 \<Longrightarrow> c < nat 2 \<Longrightarrow>
          grid_at g r c 0 = int r * 32 div 1 \<and> grid_at g r c 1 = int c * 32 div 1"
    unfolding s using o by auto
  have "(grid_at g 0 0 0, grid_at g 0 0 1) = (0, 0)" "(grid_at g 0 1 0, grid_at g 0 1 1) = (0, 32)"
       "(grid_at g 1 0 0, grid_at g 1 0 1) = (32, 0)" "(grid_at g 1 1 0, grid_at g 1 1 1) = (32, 32)"
    using e [of 0 0] e [of 0 1] e [of 1 0] e [of 1 1] by simp_all
  with h g show ?thesis by auto
qed

text \<open>
  Claim C3, as amended. Take the tilers built from one base shape, tile count and
  supersampling, one with outlier and one without. The padded tile shape is twice the
  plain one. Every origin of the outlier tiler is the plain origin (which is also
  i * tile_shape / outlier_coeff computed in the outlier tiler) moved by -(tile_shape / 4)
  on both axes, in the integer division of the source. The window of the padded tile
  that starts tile_shape / 4 after its origin and has extent tile_shape / outlier_coeff
  is the region of the plain tile. That window is the central region of the padded tile
  exactly when the plain tile extent is even (and not negative); when it is odd the
  margin after the window is one cell larger than the margin before it.
\<close>

theorem outlier_origins_shifted:
  assumes initT: "Tiler_init shp tc True ss cplx mem = Inr tT"
    and initF: "Tiler_init shp tc False ss cplx' mem' = Inr tF"
    and pos: "0 < fst tc" "0 < snd tc"
  shows "\<exists>gT gF tsT tsF.
       tile_shape tT = Inr tsT \<and> tile_shape tF = Inr tsF
     \<and> tile_indices tT = Inr gT \<and> tile_indices tF = Inr gF
     \<and> fst tsT div outlier_coeff tT = fst tsF \<and> snd tsT div outlier_coeff tT = snd tsF
     \<and> fst tsT - (fst tsT div 4 + fst tsF) = fst tsT div 4 + fst tsF mod 2
     \<and> snd tsT - (snd tsT div 4 + snd tsF) = snd tsT div 4 + snd tsF mod 2
     \<and> (\<forall>r c. r < nat (fst tc) \<and> c < nat (snd tc) \<longrightarrow>
          grid_at gF r c 0 = int r * fst tsT div outlier_coeff tT
        \<and> grid_at gF r c 1 = int c * snd tsT div outlier_coeff tT
        \<and> grid_at gT r c 0 = grid_at gF r c 0 - fst tsT div 4
        \<and> grid_at gT r c 1 = grid_at gF r c 1 - snd tsT div 4
        \<and> grid_at gT r c 0 + fst tsT div 4 = grid_at gF r c 0
        \<and> grid_at gT r c 1 + snd tsT div 4 = grid_at gF r c 1
        \<and> (spec_central_region (grid_at gT r c 0) (fst tsT) (grid_at gF r c 0) (fst tsF)
              \<longleftrightarrow> 0 \<le> fst tsF \<and> even (fst tsF))
        \<and> (spec_central_region (grid_at gT r c 1) (snd tsT) (grid_at gF r c 1) (snd tsF)
              \<longleftrightarrow> 0 \<le> snd tsF \<and> even (snd tsF)))"
proof -
  note IT = Tiler_init_Inr [OF initT] and IF = Tiler_init_Inr [OF initF]
  define m0 m1 where "m0 = (fst shp * ss) div fst tc" and "m1 = (snd shp * ss) div snd tc"
  from IT have d: "fst tc dvd fst shp * ss" "snd tc dvd snd shp * ss"
    by (simp_all add: mod_eq_0_iff_dvd)
  have cT: "outlier_coeff tT = 2" and cF: "outlier_coeff tF = 1" using IT IF by simp_all
  have tsT: "tile_shape tT = Inr (2 * m0, 2 * m1)"
    using d by (simp add: tile_shape_init [OF initT] cT m0_def m1_def div_mult_swap)
  have tsF: "tile_shape tF = Inr (m0, m1)"
    by (simp add: tile_shape_init [OF initF] cF m0_def m1_def)
  from tile_indices_entries [OF initT pos tsT] obtain gT where
    gT: "tile_indices tT = Inr gT"
    and eT: "\<And>r c. r < nat (fst tc) \<Longrightarrow> c < nat (snd tc) \<Longrightarrow>
          grid_at gT r c 0 = int r * (2 * m0) div 2 - (2 * m0) div 4
        \<and> grid_at gT r c 1 = int c * (2 * m1) div 2 - (2 * m1) div 4"
    by (auto simp: cT)
  from tile_indices_entries [OF initF pos tsF] obtain gF where
    gF: "tile_indices tF = Inr gF"
    and eF: "\<And>r c. r < nat (fst tc) \<Longrightarrow> c < nat (snd tc) \<Longrightarrow>
          grid_at gF r c 0 = int r * m0 \<and> grid_at gF r c 1 = int c * m1"
    by (auto simp: cF)
  have h: "int r * (2 * m) div 2 = int r * m" for r m by simp
  have q: "2 * m - (2 * m div 4 + m) = 2 * m div 4 + m mod 2" for m :: int by presburger
  have cen: "spec_central_region (s - m div 2) (2 * m) s m \<longleftrightarrow> 0 \<le> m \<and> even m"
    for s m :: int
    unfolding spec_central_region_def by presburger
  show ?thesis
    apply (rule exI [where x = gT])
    apply (rule exI [where x = gF])
    apply (rule exI [where x = "(2 * m0, 2 * m1)"])
    apply (rule exI [where x = "(m0, m1)"])
    using tsT tsF gT gF eT eF q [of m0] q [of m1] by (simp add: cT h cen)
qed

theorem outlier_origins_shifted_witness:
  "\<exists>tT tF gT gF.
      Tiler_init (64, 64) (2, 2) True 1 False (\<lambda>_ _. 0::int) = Inr tT
    \<and> Tiler_init (64, 64) (2, 2) False 1 False (\<lambda>_ _. 0::int) = Inr tF
    \<and> tile_indices tT = Inr gT \<and> tile_indices tF = Inr gF
    \<and> tile_shape tT = Inr (64, 64) \<and> tile_shape tF = Inr (32, 32)
    \<and> (grid_at gT 1 0 0, grid_at gT 1 0 1) = (16, -16)
    \<and> (grid_at gF 1 0 0, grid_at gF 1 0 1) = (32, 0)
    \<and> spec_central_region (grid_at gT 1 0 0) 64 (grid_at gF 1 0 0) 32
    \<and> spec_central_region (grid_at gT 1 0 1) 64 (grid_at gF 1 0 1) 32"
proof -
  let ?a = "\<lparr>nrows = 64, ncols = 64, item = (\<lambda>_ _. 0::int)\<rparr>"
  let ?tT = "\<lparr>tiles_count = (2, 2), outlier_coeff = 2, supersampling = 1, shape = (64, 64),
             overall = ?a\<rparr>"
  let ?tF = "\<lparr>tiles_count = (2, 2), outlier_coeff = 1, supersampling = 1, shape = (64, 64),
             overall = ?a\<rparr>"
  have hT: "Tiler_init (64, 64) (2, 2) True 1 False (\<lambda>_ _. 0::int) = Inr ?tT"
    by (simp add: Tiler_init_def check_tiling_def ebind_def pymod_def floordiv_def np_empty_def Let_def)
  have hF: "Tiler_init (64, 64) (2, 2) False 1 False (\<lambda>_ _. 0::int) = Inr ?tF"
    by (simp add: Tiler_init_def check_tiling_def ebind_def pymod_def floordiv_def np_empty_def Let_def)
  have p: "0 < fst (2::int, 2::int)" "0 < snd (2::int, 2::int)" by simp_all
  have sT: "tile_shape ?tT = Inr (64, 64)" and sF: "tile_shape ?tF = Inr (32, 32)"
    by (simp_all add: tile_shape_def ebind_def floordiv_def)
  from outlier_origins_shifted [OF hT hF p] obtain gT gF where
    g: "tile_indices ?tT = Inr gT" "tile_indices ?tF = Inr gF"
    and e: "\<And>r c. r < nat 2 \<Longrightarrow> c < nat 2 \<Longrightarrow>
          grid_at gF r c 0 = int r * 64 div 2 \<and> grid_at gF r c 1 = int c * 64 div 2
        \<and> grid_at gT r c 0 = grid_at gF r c 0 - 64 div 4
        \<and> grid_at gT r c 1 = grid_at gF r c 1 - 64 div 4
        \<and> (spec_central_region (grid_at gT r c 0) 64 (grid_at gF r c 0) 32
              \<longleftrightarrow> (0::int) \<le> 32 \<and> even (32::int))
        \<and> (spec_central_region (grid_at gT r c 1) 64 (grid_at gF r c 1) 32
              \<longleftrightarrow> (0::int) \<le> 32 \<and> even (32::int))"
    unfolding sT sF by auto
  have "(grid_at gT 1 0 0, grid_at gT 1 0 1) = (16, -16)" "(grid_at gF 1 0 0, grid_at gF 1 0 1) = (32, 0)"
    using e [of 1 0] by simp_all
  moreover have "spec_central_region (grid_at gT 1 0 0) 64 (grid_at gF 1 0 0) 32"
    "spec_central_region (grid_at gT 1 0 1) 64 (grid_at gF 1 0 1) 32"
    using e [of 1 0] by auto
  ultimately show ?thesis using hT hF g sT sF by blast
qed

text \<open>
  Claim C3 as stated fails. For the base shape (3, 5) in one tile the padded tile shape is
  (6, 10) and the plain one (3, 5). The outlier origin is (-1, -2): the shift is 6 / 4 = 1
  and 10 / 4 = 2 in integer division, not half the plain extent. The plain tile's region
  then has 1 row before it and 2 after it in the padded tile, and 2 columns before it and
  3 after it, so it is not the central region.
\<close>

theorem outlier_odd_extent_counterexample:
  "Tiler_init (3, 5) (1, 1) True 1 False (\<lambda>_ _. 0::int)
     = Inr \<lparr>tiles_count = (1, 1), outlier_coeff = 2, supersampling = 1, shape = (3, 5),
            overall = \<lparr>nrows = 3, ncols = 5, item = (\<lambda>_ _. 0)\<rparr>\<rparr>
   \<and> Tiler_init (3, 5) (1, 1) False 1 False (\<lambda>_ _. 0::int)
     = Inr \<lparr>tiles_count = (1, 1), outlier_coeff = 1, supersampling = 1, shape = (3, 5),
            overall = \<lparr>nrows = 3, ncols = 5, item = (\<lambda>_ _. 0)\<rparr>\<rparr>
   \<and> tile_shape \<lparr>tiles_count = (1, 1), outlier_coeff = 2, supersampling = 1, shape = (3, 5),
            overall = \<lparr>nrows = 3, ncols = 5, item = (\<lambda>_ _. 0::int)\<rparr>\<rparr> = Inr (6, 10)
   \<and> tile_shape \<lparr>tiles_count = (1, 1), outlier_coeff = 1, supersampling = 1, shape = (3, 5),
            overall = \<lparr>nrows = 3, ncols = 5, item = (\<lambda>_ _. 0::int)\<rparr>\<rparr> = Inr (3, 5)
   \<and> tile_indices \<lparr>tiles_count = (1, 1), outlier_coeff = 2, supersampling = 1, shape = (3, 5),
            overall = \<lparr>nrows = 3, ncols = 5, item = (\<lambda>_ _. 0::int)\<rparr>\<rparr>
       = Inr \<lparr>gshape = (1, 1, 2), gdata = [- 1, - 2]\<rparr>
   \<and> tile_indices \<lparr>tiles_count = (1, 1), outlier_coeff = 1, supersampling = 1, shape = (3, 5),
            overall = \<lparr>nrows = 3, ncols = 5, item = (\<lambda>_ _. 0::int)\<rparr>\<rparr>
       = Inr \<lparr>gshape = (1, 1, 2), gdata = [0, 0]\<rparr>
   \<and> \<not> spec_central_region (- 1) 6 0 3
   \<and> \<not> spec_central_region (- 2) 10 0 5"
  by (simp add: Tiler_init_def check_tiling_def pymod_def np_empty_def Let_def
      tile_shape_def tile_indices_def outlier_def ebind_def floordiv_def range_py_def
      reshape_pairs_def flatten_pairs_def spec_central_region_def)

text \<open>
  Claim C9, as amended. \<open>insert\<close> checks neither the tile shape nor the indices; it
  raises only NumPy's ValueError, when the tile cannot be broadcast to the clipped target
  region. For a tiler built by \<open>__init__\<close> and in-grid indices that is exactly when some
  axis of the tile is neither the interior extent nor 1. For an index at or beyond the
  tile count on an axis, a tile with at least two cells along that axis is rejected with
  ValueError.
\<close>

theorem insert_fails_when_not_broadcastable:
  assumes init: "Tiler_init shp tc outl ss cplx mem = Inr t0"
    and dims: "nrows a = nrows (overall t0)" "ncols a = ncols (overall t0)"
  shows "\<exists>ih iw. interior_shape (t0\<lparr>overall := a\<rparr>) = Inr (ih, iw)
     \<and> (in_grid tc idx \<longrightarrow>
          (Tiler_insert (t0\<lparr>overall := a\<rparr>) tile idx = Inl ValueError
             \<longleftrightarrow> \<not> (broadcastable (nrows tile) (nat ih) \<and> broadcastable (ncols tile) (nat iw)))
        \<and> ((\<exists>t'. Tiler_insert (t0\<lparr>overall := a\<rparr>) tile idx = Inr t')
             \<longleftrightarrow> broadcastable (nrows tile) (nat ih) \<and> broadcastable (ncols tile) (nat iw)))
     \<and> (0 < fst tc \<and> fst tc \<le> fst idx \<and> 2 \<le> nrows tile \<longrightarrow>
          Tiler_insert (t0\<lparr>overall := a\<rparr>) tile idx = Inl ValueError)
     \<and> (0 < snd tc \<and> snd tc \<le> snd idx \<and> 2 \<le> ncols tile \<longrightarrow>
          Tiler_insert (t0\<lparr>overall := a\<rparr>) tile idx = Inl ValueError)"
  using interior_shape_init [OF init, of a] insert_in_grid_cases [OF init dims, of idx tile]
    insert_beyond_rows [OF init dims(1), of idx tile] insert_beyond_cols [OF init dims(2), of idx tile]
  by auto

theorem insert_fails_when_not_broadcastable_witness:
  "\<exists>t. Tiler_init (4, 4) (2, 2) False 1 False (\<lambda>_ _. 0::int) = Inr t
     \<and> interior_shape t = Inr (2, 2)
     \<and> Tiler_insert t \<lparr>nrows = 3, ncols = 2, item = (\<lambda>_ _. 7)\<rparr> (0, 0) = Inl ValueError
     \<and> Tiler_insert t \<lparr>nrows = 2, ncols = 2, item = (\<lambda>_ _. 7)\<rparr> (2, 0) = Inl ValueError
     \<and> Tiler_insert t \<lparr>nrows = 2, ncols = 2, item = (\<lambda>_ _. 7)\<rparr> (0, 2) = Inl ValueError"
proof -
  let ?a = "\<lparr>nrows = 4, ncols = 4, item = (\<lambda>_ _. 0::int)\<rparr>"
  let ?t = "\<lparr>tiles_count = (2, 2), outlier_coeff = 1, supersampling = 1, shape = (4, 4),
             overall = ?a\<rparr>"
  let ?bad = "\<lparr>nrows = 3, ncols = 2, item = (\<lambda>_ _. 7::int)\<rparr>"
  let ?good = "\<lparr>nrows = 2, ncols = 2, item = (\<lambda>_ _. 7::int)\<rparr>"
  have h: "Tiler_init (4, 4) (2, 2) False 1 False (\<lambda>_ _. 0::int) = Inr ?t"
    by (simp add: Tiler_init_def check_tiling_def ebind_def pymod_def floordiv_def np_empty_def Let_def)
  have u: "?t\<lparr>overall := ?a\<rparr> = ?t" by simp
  have d1: "nrows ?a = nrows (overall ?t)" and d2: "ncols ?a = ncols (overall ?t)" by simp_all
  have i: "interior_shape ?t = Inr (2, 2)"
    by (simp add: interior_shape_def tile_shape_def ebind_def floordiv_def)
  have "Tiler_insert ?t ?bad (0, 0) = Inl ValueError"
    using insert_fails_when_not_broadcastable [OF h d1 d2, of "(0, 0)" ?bad]
    unfolding u i by (simp add: in_grid_def broadcastable_def)
  moreover have "Tiler_insert ?t ?good (2, 0) = Inl ValueError"
    using insert_fails_when_not_broadcastable [OF h d1 d2, of "(2, 0)" ?good]
    unfolding u i by simp
  moreover have "Tiler_insert ?t ?good (0, 2) = Inl ValueError"
    using insert_fails_when_not_broadcastable [OF h d1 d2, of "(0, 2)" ?good]
    unfolding u i by simp
  ultimately show ?thesis using h i by blast
qed

text \<open>
  Claim C9 as stated fails. On a 4 by 4 accumulator cut into 2 by 2 tiles the interior
  shape is 2 by 2. Inserting a 2 by 2 tile at the out-of-grid indices (-2, 0) succeeds and
  overwrites the block of tile (0, 0), since a negative slice bound counts from the end;
  inserting a 1 by 1 tile at (1, 1) succeeds and fills the whole block with its one value.
\<close>

theorem insert_unchecked_counterexample:
  "Tiler_init (4, 4) (2, 2) False 1 False (\<lambda>_ _. 0::int)
     = Inr \<lparr>tiles_count = (2, 2), outlier_coeff = 1, supersampling = 1, shape = (4, 4),
            overall = \<lparr>nrows = 4, ncols = 4, item = (\<lambda>_ _. 0)\<rparr>\<rparr>
   \<and> interior_shape \<lparr>tiles_count = (2, 2), outlier_coeff = 1, supersampling = 1, shape = (4, 4),
            overall = \<lparr>nrows = 4, ncols = 4, item = (\<lambda>_ _. 0::int)\<rparr>\<rparr> = Inr (2, 2)
   \<and> \<not> in_grid (2, 2) (- 2, 0)
   \<and> \<not> isl (Tiler_insert \<lparr>tiles_count = (2, 2), outlier_coeff = 1, supersampling = 1, shape = (4, 4),
            overall = \<lparr>nrows = 4, ncols = 4, item = (\<lambda>_ _. 0::int)\<rparr>\<rparr>
          \<lparr>nrows = 2, ncols = 2, item = (\<lambda>_ _. 7)\<rparr> (- 2, 0))
   \<and> item (overall (projr (Tiler_insert \<lparr>tiles_count = (2, 2), outlier_coeff = 1, supersampling = 1,
            shape = (4, 4), overall = \<lparr>nrows = 4, ncols = 4, item = (\<lambda>_ _. 0::int)\<rparr>\<rparr>
          \<lparr>nrows = 2, ncols = 2, item = (\<lambda>_ _. 7)\<rparr> (- 2, 0)))) 1 1 = 7
   \<and> \<not> isl (Tiler_insert \<lparr>tiles_count = (2, 2), outlier_coeff = 1, supersampling = 1, shape = (4, 4),
            overall = \<lparr>nrows = 4, ncols = 4, item = (\<lambda>_ _. 0::int)\<rparr>\<rparr>
          \<lparr>nrows = 1, ncols = 1, item = (\<lambda>_ _. 7)\<rparr> (1, 1))
   \<and> item (overall (projr (Tiler_insert \<lparr>tiles_count = (2, 2), outlier_coeff = 1, supersampling = 1,
            shape = (4, 4), overall = \<lparr>nrows = 4, ncols = 4, item = (\<lambda>_ _. 0::int)\<rparr>\<rparr>
          \<lparr>nrows = 1, ncols = 1, item = (\<lambda>_ _. 7)\<rparr> (1, 1)))) 3 3 = 7"
  by (simp add: Tiler_init_def check_tiling_def pymod_def np_empty_def in_grid_def insert_eval)


text \<open>
  Claim C6. For a camera whose frame rate and exposure time are both set (frame rates
  non-zero), assigning a new exposure time or a new frame rate raises FPSError, carrying
  the frame rate and the exposure time of the rejected pair, exactly when that pair
  violates exposure time \<open>\<le>\<close> 1 / frame rate; the camera is then unchanged, and otherwise
  only the assigned field changes. A pair with exposure time * frame rate = 1 is accepted.
\<close>

theorem setters_check_feasibility:
  assumes "priv_fps c = Some f" "priv_exp_time c = Some e" "f \<noteq> 0" "f' \<noteq> 0"
  shows "Camera_exp_time_set c e' =
           (if e' \<le> 1 / f then (None, c\<lparr>priv_exp_time := Some e'\<rparr>)
            else (Some (FPSError (Some f) (Some e')), c))
       \<and> Camera_fps_set c f' =
           (if e \<le> 1 / f' then (None, c\<lparr>priv_fps := Some f'\<rparr>)
            else (Some (FPSError (Some f') (Some e)), c))
       \<and> (0 < f \<and> e' * f = 1 \<longrightarrow> Camera_exp_time_set c e' = (None, c\<lparr>priv_exp_time := Some e'\<rparr>))
       \<and> (0 < f' \<and> e * f' = 1 \<longrightarrow> Camera_fps_set c f' = (None, c\<lparr>priv_fps := Some f'\<rparr>))"
proof -
  have a: "Camera_exp_time_set c e' =
           (if e' \<le> 1 / f then (None, c\<lparr>priv_exp_time := Some e'\<rparr>)
            else (Some (FPSError (Some f) (Some e')), c))"
    using assms by (simp add: Camera_exp_time_set_def Camera_fps_def fps_check_raise_Some simplified_def)
  have b: "Camera_fps_set c f' =
           (if e \<le> 1 / f' then (None, c\<lparr>priv_fps := Some f'\<rparr>)
            else (Some (FPSError (Some f') (Some e)), c))"
    using assms by (simp add: Camera_fps_set_def Camera_exp_time_def fps_check_raise_Some simplified_def)
  have c: "x \<le> 1 / y" if "0 < y" "x * y = 1" for x y :: real
    using that by (simp add: field_simps)
  show ?thesis using a b c [of f e'] c [of f' e] by auto
qed

theorem setters_check_feasibility_witness:
  "\<exists>c. Camera_init 1 1 0 0 8 Map.empty None None (Some 1000) = Inr c
      \<and> priv_exp_time c = Some (1 / 1000)
      \<and> Camera_exp_time_set c (2 / 1000) = (Some (FPSError (Some 1000) (Some (2 / 1000))), c)
      \<and> Camera_exp_time_set c (5 / 10000) = (None, c\<lparr>priv_exp_time := Some (5 / 10000)\<rparr>)
      \<and> Camera_fps_set c 2000 = (Some (FPSError (Some 2000) (Some (1 / 1000))), c)
      \<and> Camera_fps_set c 1000 = (None, c\<lparr>priv_fps := Some 1000\<rparr>)"
proof -
  let ?c = "\<lparr>pixel_size = 1, gain = 1, dark_current = 0, amplifier_sigma = 0,
                bpp = 8, quantum_effs = Map.empty, priv_shape = None,
                priv_dark_image = Missing, dark_image = Bound None,
                priv_exp_time = Some (1 / 1000), priv_fps = Some 1000\<rparr>"
  have h: "Camera_init 1 1 0 0 8 Map.empty None None (Some 1000) = Inr ?c"
    by (simp add: Camera_init_def Camera_shape_set_def truediv_one_def ebind_def fps_check_raise_def
        is_fps_feasible_def le_py_def Let_def)
  have f: "priv_fps ?c = Some 1000" and e: "priv_exp_time ?c = Some (1 / 1000)" by simp_all
  have n: "(1000::real) \<noteq> 0" "(2000::real) \<noteq> 0" by simp_all
  from setters_check_feasibility [OF f e n(1) n(2), of "2 / 1000"]
  have 1: "Camera_exp_time_set ?c (2 / 1000) = (Some (FPSError (Some 1000) (Some (2 / 1000))), ?c)"
    and 2: "Camera_fps_set ?c 2000 = (Some (FPSError (Some 2000) (Some (1 / 1000))), ?c)"
    by simp_all
  from setters_check_feasibility [OF f e n(1) n(1), of "5 / 10000"]
  have 3: "Camera_exp_time_set ?c (5 / 10000) = (None, ?c\<lparr>priv_exp_time := Some (5 / 10000)\<rparr>)"
    and 4: "Camera_fps_set ?c 1000 = (None, ?c\<lparr>priv_fps := Some 1000\<rparr>)"
    by simp_all
  show ?thesis using h e 1 2 3 4 by blast
qed

text \<open>
  Claim C7 at a camera built with neither frame rate nor exposure time. Assigning an
  exposure time raises TypeError, from \<open>1.0 / None\<close>, and changes nothing. Assigning a
  frame rate is accepted and leaves the exposure time unset. The constructor is the path
  that derives the missing field: given only one of the two it sets the other to its
  reciprocal.
\<close>

theorem setter_with_other_unset:
  "Camera_init 1 1 0 0 8 Map.empty None None None
     = Inr \<lparr>pixel_size = 1, gain = 1, dark_current = 0, amplifier_sigma = 0,
            bpp = 8, quantum_effs = Map.empty, priv_shape = None,
            priv_dark_image = Missing, dark_image = Bound None,
            priv_exp_time = None, priv_fps = None\<rparr>
   \<and> Camera_exp_time_set \<lparr>pixel_size = 1, gain = 1, dark_current = 0, amplifier_sigma = 0,
            bpp = 8, quantum_effs = Map.empty, priv_shape = None,
            priv_dark_image = Missing, dark_image = Bound None,
            priv_exp_time = None, priv_fps = None\<rparr> (1 / 1000)
     = (Some TypeError, \<lparr>pixel_size = 1, gain = 1, dark_current = 0, amplifier_sigma = 0,
            bpp = 8, quantum_effs = Map.empty, priv_shape = None,
            priv_dark_image = Missing, dark_image = Bound None,
            priv_exp_time = None, priv_fps = None\<rparr>)
   \<and> Camera_fps_set \<lparr>pixel_size = 1, gain = 1, dark_current = 0, amplifier_sigma = 0,
            bpp = 8, quantum_effs = Map.empty, priv_shape = None,
            priv_dark_image = Missing, dark_image = Bound None,
            priv_exp_time = None, priv_fps = None\<rparr> 1000
     = (None, \<lparr>pixel_size = 1, gain = 1, dark_current = 0, amplifier_sigma = 0,
            bpp = 8, quantum_effs = Map.empty, priv_shape = None,
            priv_dark_image = Missing, dark_image = Bound None,
            priv_exp_time = None, priv_fps = Some 1000\<rparr>)
   \<and> Camera_init 1 1 0 0 8 Map.empty None None (Some 1000)
     = Inr \<lparr>pixel_size = 1, gain = 1, dark_current = 0, amplifier_sigma = 0,
            bpp = 8, quantum_effs = Map.empty, priv_shape = None,
            priv_dark_image = Missing, dark_image = Bound None,
            priv_exp_time = Some (1 / 1000), priv_fps = Some 1000\<rparr>
   \<and> Camera_init 1 1 0 0 8 Map.empty None (Some (1 / 1000)) None
     = Inr \<lparr>pixel_size = 1, gain = 1, dark_current = 0, amplifier_sigma = 0,
            bpp = 8, quantum_effs = Map.empty, priv_shape = None,
            priv_dark_image = Missing, dark_image = Bound None,
            priv_exp_time = Some (1 / 1000), priv_fps = Some 1000\<rparr>"
  by (simp add: Camera_init_def Camera_shape_set_def Camera_exp_time_set_def Camera_fps_set_def
      Camera_fps_def Camera_exp_time_def truediv_one_def ebind_def fps_check_raise_def
      is_fps_feasible_def le_py_def simplified_def Let_def)

text \<open>
  Claim C10 at a camera built with shape (2, 3) and dark current 5. Its \<open>_dark_image\<close>
  is the 2 by 3 buffer filled with 5. Assigning \<open>None\<close> to the shape afterwards binds
  the other attribute, \<open>dark_image\<close>, to \<open>None\<close> and leaves \<open>_dark_image\<close>, the buffer
  that \<open>get_image\<close> reads, as it was.
\<close>

theorem shape_unset_keeps_dark_image:
  "Camera_init 1 1 5 0 8 Map.empty (Some (2, 3)) None None
     = Inr \<lparr>pixel_size = 1, gain = 1, dark_current = 5, amplifier_sigma = 0,
            bpp = 8, quantum_effs = Map.empty, priv_shape = Some (2, 3),
            priv_dark_image = Bound \<lparr>nrows = 2, ncols = 3, item = (\<lambda>_ _. 5)\<rparr>,
            dark_image = Missing, priv_exp_time = None, priv_fps = None\<rparr>
   \<and> Camera_shape_set \<lparr>pixel_size = 1, gain = 1, dark_current = 5, amplifier_sigma = 0,
            bpp = 8, quantum_effs = Map.empty, priv_shape = Some (2, 3),
            priv_dark_image = Bound \<lparr>nrows = 2, ncols = 3, item = (\<lambda>_ _. 5)\<rparr>,
            dark_image = Missing, priv_exp_time = None, priv_fps = None\<rparr> None
     = \<lparr>pixel_size = 1, gain = 1, dark_current = 5, amplifier_sigma = 0,
            bpp = 8, quantum_effs = Map.empty, priv_shape = None,
            priv_dark_image = Bound \<lparr>nrows = 2, ncols = 3, item = (\<lambda>_ _. 5)\<rparr>,
            dark_image = Bound None, priv_exp_time = None, priv_fps = None\<rparr>"
  by (simp add: Camera_init_def Camera_shape_set_def np_ones_times_def ebind_def Let_def)

text \<open>
  Claim C5 at a failing input. With 8 bits per pixel, gain 1, amplifier sigma 1, no dark
  current and a mean of one photon, a Poisson draw of 0 and a standard normal draw of -1
  give the count -1. Only values above 255 are cut, so -1 reaches the cast, which is to
  16 bits whatever the bits per pixel are and wraps it to 65535 on x86-64: the pixel is
  outside [0, 255].
\<close>

theorem get_image_negative_count_wraps:
  "Camera_init 1 1 0 1 8 Map.empty (Some (1, 1)) None None
     = Inr \<lparr>pixel_size = 1, gain = 1, dark_current = 0, amplifier_sigma = 1,
            bpp = 8, quantum_effs = Map.empty, priv_shape = Some (1, 1),
            priv_dark_image = Bound \<lparr>nrows = 1, ncols = 1, item = (\<lambda>_ _. 0)\<rparr>,
            dark_image = Missing, priv_exp_time = None, priv_fps = None\<rparr>
   \<and> \<not> isl (get_image \<lparr>pixel_size = 1, gain = 1, dark_current = 0, amplifier_sigma = 1,
            bpp = 8, quantum_effs = Map.empty, priv_shape = Some (1, 1),
            priv_dark_image = Bound \<lparr>nrows = 1, ncols = 1, item = (\<lambda>_ _. 0)\<rparr>,
            dark_image = Missing, priv_exp_time = None, priv_fps = None\<rparr>
          \<lparr>nrows = 1, ncols = 1, item = (\<lambda>_ _. 1)\<rparr> (\<lambda>_ _. 0) (\<lambda>_ _. - 1) wrap_ushort)
   \<and> uint (item (projr (get_image \<lparr>pixel_size = 1, gain = 1, dark_current = 0, amplifier_sigma = 1,
            bpp = 8, quantum_effs = Map.empty, priv_shape = Some (1, 1),
            priv_dark_image = Bound \<lparr>nrows = 1, ncols = 1, item = (\<lambda>_ _. 0)\<rparr>,
            dark_image = Missing, priv_exp_time = None, priv_fps = None\<rparr>
          \<lparr>nrows = 1, ncols = 1, item = (\<lambda>_ _. 1)\<rparr> (\<lambda>_ _. 0) (\<lambda>_ _. - 1) wrap_ushort)) 0 0)
       = 65535
   \<and> \<not> (65535 \<le> max_grey_value \<lparr>pixel_size = 1, gain = 1, dark_current = 0, amplifier_sigma = 1,
            bpp = 8, quantum_effs = Map.empty, priv_shape = Some (1, 1),
            priv_dark_image = Bound \<lparr>nrows = 1, ncols = 1, item = (\<lambda>_ _. 0)\<rparr>,
            dark_image = Missing, priv_exp_time = None, priv_fps = None\<rparr>)"
  by (simp add: Camera_init_def Camera_shape_set_def np_ones_times_def Let_def
      get_image_def noisy_counts_def np_add_def broadcast_dim_def np_random_poisson_def poisson_lam_max_def all_cells_def
      np_random_normal_def ebind_def cut_values_def max_grey_value_def astype_ushort_def
      wrap_ushort_def trunc_def ceiling_minus_one_real uint_minus_one_ushort)


end
